theory Spec2Isabelle
  imports Complex_Main
begin

section \<open>JavaScript values of the dashboard engine\<close>

text \<open>
  The engine of \<^verbatim>\<open>PatientNoShowDashboard.jsx\<close> works on rows delivered by the CSV
  reader: objects whose property values are strings, later overwritten by numbers or
  \<^verbatim>\<open>null\<close>. The source file holds two revisions of the component; the model follows
  the later one, which also normalizes \<^verbatim>\<open>NoShow\<close> and \<^verbatim>\<open>WaitingDays\<close>.

  Strings are modelled as Isabelle strings (8-bit characters, so the white space set
  below stops at U+00A0). A JavaScript number is an IEEE double; the model keeps the
  exact decimal value instead: \<open>Finite m e\<close> stands for \<open>m / 10 ^ e\<close> and is kept in
  lowest terms by \<open>strip0\<close> (no trailing zero in the mantissa while the scale is
  positive), so that \<^verbatim>\<open>===\<close> on numbers is equality of the terms. There is no
  negative zero, no rounding to 53 bits, and neither overflow to \<open>Infinity\<close> nor
  underflow to 0.
\<close>

datatype number = NaN | PosInfinity | NegInfinity | Finite int nat

datatype jsval = Undefined | Null | Str string | Num number

fun strip0 :: "int \<Rightarrow> nat \<Rightarrow> int \<times> nat" where
  "strip0 m 0 = (m, 0)"
| "strip0 m (Suc e) = (if m mod 10 = 0 then strip0 (m div 10) e else (m, Suc e))"

definition num_val :: "int \<Rightarrow> nat \<Rightarrow> rat" where
  "num_val m e = of_int m / 10 ^ e"

definition normalized :: "number \<Rightarrow> bool" where
  \<comment> \<open>the representation invariant: a finite number is in lowest terms\<close>
  "normalized n = (case n of Finite m e \<Rightarrow> strip0 m e = (m, e) | _ \<Rightarrow> True)"

subsection \<open>Characters and strings\<close>

definition is_digit :: "char \<Rightarrow> bool" where
  "is_digit c = (48 \<le> (of_char c :: nat) \<and> (of_char c :: nat) \<le> 57)"

definition digit_val :: "char \<Rightarrow> nat" where
  "digit_val c = of_char c - 48"

definition digit_char :: "nat \<Rightarrow> char" where
  "digit_char d = char_of (48 + d)"

definition is_space :: "char \<Rightarrow> bool" where
  \<comment> \<open>WhiteSpace and LineTerminator of ECMA-262 among the first 256 code points:
      TAB, LF, VT, FF, CR, SP, NBSP.\<close>
  "is_space c = ((of_char c :: nat) \<in> {9, 10, 11, 12, 13, 32, 160})"

definition trim :: "string \<Rightarrow> string" where
  "trim s = rev (dropWhile is_space (rev (dropWhile is_space s)))"

definition lower_char :: "char \<Rightarrow> char" where
  "lower_char c =
     (let n = (of_char c :: nat) in
      if (65 \<le> n \<and> n \<le> 90) \<or> (192 \<le> n \<and> n \<le> 222 \<and> n \<noteq> 215)
      then char_of (n + 32) else c)"

definition toLowerCase :: "string \<Rightarrow> string" where
  "toLowerCase s = map lower_char s"

definition digits_val :: "string \<Rightarrow> nat" where
  "digits_val ds = foldl (\<lambda>a c. 10 * a + digit_val c) 0 ds"

subsection \<open>\<^verbatim>\<open>String(number)\<close>\<close>

text \<open>
  \<open>digits_w w n\<close> are the \<open>w\<close> low decimal digits of \<open>n\<close>; \<open>nat_str\<close> prints a natural
  number without leading zeros. \<open>String_number\<close> prints the exact decimal expansion
  (JavaScript switches to exponent notation from \<^verbatim>\<open>1e21\<close> on and below \<^verbatim>\<open>1e-6\<close>;
  the model never does, and \<open>Number_str\<close> below reads both notations).
\<close>

fun digits_w :: "nat \<Rightarrow> nat \<Rightarrow> string" where
  "digits_w 0 n = []"
| "digits_w (Suc w) n = digits_w w (n div 10) @ [digit_char (n mod 10)]"

fun num_digits :: "nat \<Rightarrow> nat" where
  "num_digits n = (if n < 10 then 1 else Suc (num_digits (n div 10)))"

declare num_digits.simps [simp del]

definition nat_str :: "nat \<Rightarrow> string" where
  "nat_str n = digits_w (num_digits n) n"

definition int_str :: "int \<Rightarrow> string" where
  "int_str i = (if i < 0 then CHR ''-'' # nat_str (nat (- i)) else nat_str (nat i))"

definition String_number :: "number \<Rightarrow> string" where
  "String_number n =
     (case n of
        NaN \<Rightarrow> ''NaN''
      | PosInfinity \<Rightarrow> ''Infinity''
      | NegInfinity \<Rightarrow> ''-Infinity''
      | Finite m e \<Rightarrow>
          (if m < 0 then ''-'' else '''') @ nat_str (nat \<bar>m\<bar> div 10 ^ e) @
          (if e = 0 then '''' else CHR ''.'' # digits_w e (nat \<bar>m\<bar> mod 10 ^ e)))"

definition String_js :: "jsval \<Rightarrow> string" where
  "String_js v =
     (case v of
        Undefined \<Rightarrow> ''undefined''
      | Null \<Rightarrow> ''null''
      | Str s \<Rightarrow> s
      | Num n \<Rightarrow> String_number n)"

subsection \<open>\<^verbatim>\<open>Number(string)\<close> and \<^verbatim>\<open>parseFloat\<close>\<close>

text \<open>
  \<open>scan_decimal\<close> reads the longest prefix that is a \<^verbatim>\<open>StrDecimalLiteral\<close> of
  ECMA-262 (sign, \<^verbatim>\<open>Infinity\<close>, digits with an optional fraction and exponent) and
  returns its value and the rest of the string. \<^verbatim>\<open>Number\<close> accepts the literal only
  when nothing is left, and reads the unsigned hexadecimal, octal and binary integer
  literals too; \<^verbatim>\<open>parseFloat\<close> ignores what is left.
\<close>

definition mk_number :: "bool \<Rightarrow> nat \<Rightarrow> nat \<Rightarrow> int \<Rightarrow> number" where
  "mk_number neg mant scale ex =
     (let m = (if neg then - int mant else int mant) in
      if int scale \<le> ex then Finite (m * 10 ^ nat (ex - int scale)) 0
      else (case strip0 m (nat (int scale - ex)) of (m', e') \<Rightarrow> Finite m' e'))"

definition scan_sign :: "string \<Rightarrow> bool \<times> string" where
  "scan_sign s =
     (case s of
        [] \<Rightarrow> (False, [])
      | c # t \<Rightarrow> if c = CHR ''-'' then (True, t) else if c = CHR ''+'' then (False, t) else (False, s))"

definition scan_exponent :: "string \<Rightarrow> (int \<times> string) option" where
  "scan_exponent s =
     (case s of
        [] \<Rightarrow> None
      | c # t \<Rightarrow>
          if c = CHR ''e'' \<or> c = CHR ''E'' then
            (case scan_sign t of (neg, u) \<Rightarrow>
               let ds = takeWhile is_digit u in
               if ds = [] then None
               else Some (if neg then - int (digits_val ds) else int (digits_val ds),
                          dropWhile is_digit u))
          else None)"

definition scan_fraction :: "string \<Rightarrow> string \<times> string" where
  "scan_fraction r =
     (case r of
        [] \<Rightarrow> ([], [])
      | c # t \<Rightarrow> if c = CHR ''.'' then (takeWhile is_digit t, dropWhile is_digit t) else ([], r))"

definition scan_decimal :: "string \<Rightarrow> (number \<times> string) option" where
  "scan_decimal s =
     (case scan_sign s of (neg, b) \<Rightarrow>
        if take 8 b = ''Infinity'' then Some (if neg then NegInfinity else PosInfinity, drop 8 b)
        else
          let ip = takeWhile is_digit b in
          (case scan_fraction (dropWhile is_digit b) of (fp, r2) \<Rightarrow>
             if ip = [] \<and> fp = [] then None
             else
               (case scan_exponent r2 of
                  Some (x, r3) \<Rightarrow> Some (mk_number neg (digits_val (ip @ fp)) (length fp) x, r3)
                | None \<Rightarrow> Some (mk_number neg (digits_val (ip @ fp)) (length fp) 0, r2))))"

definition radix_digit :: "nat \<Rightarrow> char \<Rightarrow> nat option" where
  "radix_digit b c =
     (let n = (of_char c :: nat);
          v = (if 48 \<le> n \<and> n \<le> 57 then n - 48
               else if 97 \<le> n \<and> n \<le> 102 then n - 87
               else if 65 \<le> n \<and> n \<le> 70 then n - 55
               else 16)
      in if v < b then Some v else None)"

definition radix_val :: "nat \<Rightarrow> string \<Rightarrow> nat option" where
  "radix_val b ds =
     (if ds = [] \<or> (\<exists>c \<in> set ds. radix_digit b c = None) then None
      else Some (foldl (\<lambda>a c. b * a + the (radix_digit b c)) 0 ds))"

definition radix_literal :: "string \<Rightarrow> nat option" where
  "radix_literal s =
     (case s of
        c0 # c1 # ds \<Rightarrow>
          if c0 \<noteq> CHR ''0'' then None
          else if c1 = CHR ''x'' \<or> c1 = CHR ''X'' then radix_val 16 ds
          else if c1 = CHR ''o'' \<or> c1 = CHR ''O'' then radix_val 8 ds
          else if c1 = CHR ''b'' \<or> c1 = CHR ''B'' then radix_val 2 ds
          else None
      | _ \<Rightarrow> None)"

definition Number_str :: "string \<Rightarrow> number" where
  "Number_str s0 =
     (let s = trim s0 in
      if s = [] then Finite 0 0
      else
        (case radix_literal s of
           Some n \<Rightarrow> Finite (int n) 0
         | None \<Rightarrow>
             (case scan_decimal s of
                None \<Rightarrow> NaN
              | Some (n, r) \<Rightarrow> if r = [] then n else NaN)))"

definition parseFloat :: "jsval \<Rightarrow> number" where
  "parseFloat v =
     (case scan_decimal (dropWhile is_space (String_js v)) of
        None \<Rightarrow> NaN
      | Some (n, r) \<Rightarrow> n)"

section \<open>Helper functions (type-safe parsing)\<close>

text \<open>
  \<^verbatim>\<open>toNum\<close> (\<^verbatim>\<open>null\<close> is \<open>None\<close>) and \<^verbatim>\<open>toBin01\<close>, as in the source:
  \<^verbatim>\<open>
  const toNum = (val) => {
    if (val === null || val === undefined) return null;
    const s = String(val).trim();
    if (s === '') return null;
    const n = Number(s);
    return Number.isNaN(n) ? null : n;
  };
  const toBin01 = (val) => {
    const n = toNum(val);
    if (n === 1) return '1';
    if (n === 0) return '0';
    return String(val ?? '').trim();
  };
  \<close>
\<close>

definition toNum :: "jsval \<Rightarrow> number option" where
  "toNum val =
     (if val = Null \<or> val = Undefined then None
      else
        let s = trim (String_js val) in
        if s = [] then None
        else
          let n = Number_str s in
          if n = NaN then None else Some n)"

definition toBin01 :: "jsval \<Rightarrow> string" where
  "toBin01 val =
     (let n = toNum val in
      if n = Some (Finite 1 0) then ''1''
      else if n = Some (Finite 0 0) then ''0''
      else trim (String_js (if val = Null \<or> val = Undefined then Str [] else val)))"

section \<open>Rows\<close>

text \<open>
  A row is the object the CSV reader builds for one line: its own properties in the
  order of \<^verbatim>\<open>Object.keys\<close>, here an association list. Reading a property that is
  absent gives \<^verbatim>\<open>undefined\<close>; assigning keeps the position of an existing key and
  appends a new one.
\<close>

type_synonym row = "(string \<times> jsval) list"

definition getProp :: "row \<Rightarrow> string \<Rightarrow> jsval" where
  "getProp r k = (case map_of r k of None \<Rightarrow> Undefined | Some v \<Rightarrow> v)"

fun set_prop :: "row \<Rightarrow> string \<Rightarrow> jsval \<Rightarrow> row" where
  "set_prop [] k v = [(k, v)]"
| "set_prop ((k', v') # r) k v = (if k' = k then (k, v) # r else (k', v') # set_prop r k v)"

definition truthy :: "jsval \<Rightarrow> bool" where
  "truthy v =
     (case v of
        Undefined \<Rightarrow> False
      | Null \<Rightarrow> False
      | Str s \<Rightarrow> s \<noteq> []
      | Num n \<Rightarrow> n \<noteq> NaN \<and> n \<noteq> Finite 0 0)"

definition js_or :: "jsval \<Rightarrow> jsval \<Rightarrow> jsval" where
  \<comment> \<open>\<^verbatim>\<open>a || b\<close>\<close>
  "js_or a b = (if truthy a then a else b)"

definition num_or_null :: "number option \<Rightarrow> jsval" where
  "num_or_null r = (case r of None \<Rightarrow> Null | Some n \<Rightarrow> Num n)"

section \<open>Feature deriver: waiting days\<close>

text \<open>
  \<^verbatim>\<open>new Date(string)\<close> is the runtime's: outside the ISO format its result is left to
  the implementation by ECMA-262. The model takes it as a parameter
  \<open>dparse :: string \<Rightarrow> int option\<close>, the time value in milliseconds, \<open>None\<close> for an
  invalid date; every statement below holds for every such parser.
  \<^verbatim>\<open>
  const getWaitingDays = (row) => {
    if (!row) return null;
    const normKey = (k) => String(k).toLowerCase().replace(/[^a-z0-9]/g, '');
    const pickField = (targetNorm) => {
      const key = Object.keys(row).find((k) => normKey(k) === targetNorm);
      return key ? row[key] : undefined;
    };
    const candidates = [
      row.WaitingDays, row.AwaitingTime, row.AwaitingDays,
      pickField('waitingdays'), pickField('awaitingtime'), pickField('awaitingdays'),
    ];
    for (const v of candidates) {
      const n = toNum(v);
      if (n !== null) return n;
    }
    const toDate = (raw) => {
      if (raw == null) return null;
      const s = String(raw).trim();
      if (!s) return null;
      const iso = s.includes(' ') && !s.includes('T') ? s.replace(' ', 'T') : s;
      const d = new Date(iso);
      return Number.isNaN(d.getTime()) ? null : d;
    };
    const scheduledRaw =
      row.ScheduledDay || row.ScheduledDate || row.Scheduled || row.Scheduled_Day || pickField('scheduledday');
    const apptRaw =
      row.AppointmentDay || row.AppointmentDate || row.Appointment || row.Appointment_Day || pickField('appointmentday');
    const scheduled = toDate(scheduledRaw);
    const appt = toDate(apptRaw);
    if (scheduled && appt) {
      const diffMs = appt.getTime() - scheduled.getTime();
      const diffDays = Math.floor(diffMs / (1000 * 60 * 60 * 24));
      return diffDays < 0 ? 0 : diffDays;
    }
    return null;
  };
  \<close>
  A row is always an object, so the first line never returns.
\<close>

definition is_lower_alnum :: "char \<Rightarrow> bool" where
  "is_lower_alnum c = ((97 \<le> (of_char c :: nat) \<and> (of_char c :: nat) \<le> 122) \<or> is_digit c)"

definition normKey :: "string \<Rightarrow> string" where
  "normKey k = filter is_lower_alnum (toLowerCase k)"

definition pickField :: "row \<Rightarrow> string \<Rightarrow> jsval" where
  "pickField row targetNorm =
     (case find (\<lambda>k. normKey k = targetNorm) (map fst row) of
        None \<Rightarrow> Undefined
      | Some key \<Rightarrow> if key = [] then Undefined else getProp row key)"

definition candidates :: "row \<Rightarrow> jsval list" where
  "candidates row =
     [getProp row ''WaitingDays'', getProp row ''AwaitingTime'', getProp row ''AwaitingDays'',
      pickField row ''waitingdays'', pickField row ''awaitingtime'', pickField row ''awaitingdays'']"

fun first_num :: "jsval list \<Rightarrow> number option" where
  "first_num [] = None"
| "first_num (v # vs) = (case toNum v of Some n \<Rightarrow> Some n | None \<Rightarrow> first_num vs)"

fun replace_first :: "char \<Rightarrow> char \<Rightarrow> string \<Rightarrow> string" where
  "replace_first a b [] = []"
| "replace_first a b (c # cs) = (if c = a then b # cs else c # replace_first a b cs)"

definition toDate :: "(string \<Rightarrow> int option) \<Rightarrow> jsval \<Rightarrow> int option" where
  "toDate dparse raw =
     (if raw = Null \<or> raw = Undefined then None
      else
        let s = trim (String_js raw) in
        if s = [] then None
        else
          let iso = (if CHR '' '' \<in> set s \<and> CHR ''T'' \<notin> set s
                     then replace_first CHR '' '' CHR ''T'' s else s)
          in dparse iso)"

definition scheduledRaw :: "row \<Rightarrow> jsval" where
  "scheduledRaw row =
     js_or (js_or (js_or (js_or (getProp row ''ScheduledDay'') (getProp row ''ScheduledDate''))
       (getProp row ''Scheduled'')) (getProp row ''Scheduled_Day'')) (pickField row ''scheduledday'')"

definition apptRaw :: "row \<Rightarrow> jsval" where
  "apptRaw row =
     js_or (js_or (js_or (js_or (getProp row ''AppointmentDay'') (getProp row ''AppointmentDate''))
       (getProp row ''Appointment'')) (getProp row ''Appointment_Day'')) (pickField row ''appointmentday'')"

definition dateDiffDays :: "(string \<Rightarrow> int option) \<Rightarrow> row \<Rightarrow> number option" where
  \<comment> \<open>the fallback of \<^verbatim>\<open>getWaitingDays\<close>, from \<^verbatim>\<open>const scheduledRaw\<close> on\<close>
  "dateDiffDays dparse row =
     (case (toDate dparse (scheduledRaw row), toDate dparse (apptRaw row)) of
        (Some scheduled, Some appt) \<Rightarrow>
          let diffMs = appt - scheduled;
              diffDays = diffMs div (1000 * 60 * 60 * 24)
          in Some (if diffDays < 0 then Finite 0 0 else Finite diffDays 0)
      | _ \<Rightarrow> None)"

definition getWaitingDays :: "(string \<Rightarrow> int option) \<Rightarrow> row \<Rightarrow> number option" where
  "getWaitingDays dparse row =
     (case first_num (candidates row) of
        Some n \<Rightarrow> Some n
      | None \<Rightarrow> dateDiffDays dparse row)"

section \<open>Record normalizer: the row callback of \<^verbatim>\<open>parseCSV\<close>\<close>

text \<open>
  Local time is UTC plus a fixed offset \<open>tz\<close> in milliseconds (no daylight saving).
  \<open>Day\<close> and \<open>WeekDay\<close> are ECMA-262's; \<open>civil_from_days\<close> is the proleptic Gregorian
  date (year, month from 1, day of month) of a day number counted from 1970-01-01.
  \<^verbatim>\<open>monday.setDate(d.getDate() + diffToMonday)\<close> moves the local date by
  \<open>diffToMonday\<close> days and keeps the time of day, so the local day number of
  \<^verbatim>\<open>monday\<close> is that of \<^verbatim>\<open>d\<close> plus \<open>diffToMonday\<close>.
\<close>

definition Day :: "int \<Rightarrow> int" where
  "Day t = t div 86400000"

definition getDay :: "int \<Rightarrow> int \<Rightarrow> int" where
  "getDay tz t = (Day (t + tz) + 4) mod 7"

definition civil_from_days :: "int \<Rightarrow> int \<times> int \<times> int" where
  "civil_from_days z0 =
     (let z = z0 + 719468;
          era = z div 146097;
          doe = z - era * 146097;
          yoe = (doe - doe div 1460 + doe div 36524 - doe div 146096) div 365;
          doy = doe - (365 * yoe + yoe div 4 - yoe div 100);
          mp = (5 * doy + 2) div 153;
          d = doy - (153 * mp + 2) div 5 + 1;
          m = (if mp < 10 then mp + 3 else mp - 9);
          y = yoe + era * 400 + (if m \<le> 2 then 1 else 0)
      in (y, m, d))"

definition padStart2 :: "string \<Rightarrow> string" where
  \<comment> \<open>\<^verbatim>\<open>s.padStart(2, '0')\<close>\<close>
  "padStart2 s = replicate (2 - length s) CHR ''0'' @ s"

definition diffToMonday :: "int \<Rightarrow> int" where
  "diffToMonday day = (if day = 0 then - 6 else 1 - day)"

definition mondayDay :: "int \<Rightarrow> int \<Rightarrow> int" where
  \<comment> \<open>the local day number of \<^verbatim>\<open>monday\<close>\<close>
  "mondayDay tz t = Day (t + tz) + diffToMonday (getDay tz t)"

definition weekLabel :: "int \<Rightarrow> int \<Rightarrow> string" where
  "weekLabel tz t =
     (case civil_from_days (mondayDay tz t) of
        (yyyy, month, date) \<Rightarrow>
          int_str yyyy @ ''-'' @ padStart2 (int_str month) @ ''-'' @ padStart2 (int_str date))"

definition newDate :: "(string \<Rightarrow> int option) \<Rightarrow> jsval \<Rightarrow> int option" where
  \<comment> \<open>\<^verbatim>\<open>new Date(v)\<close>: a string is parsed, a number is the time value itself\<close>
  "newDate dparse v =
     (case v of
        Str s \<Rightarrow> dparse s
      | Num (Finite m e) \<Rightarrow>
          (let t = sgn m * (\<bar>m\<bar> div 10 ^ e) in
           if \<bar>t\<bar> \<le> 8640000000000000 then Some t else None)
      | Num _ \<Rightarrow> None
      | Null \<Rightarrow> Some 0
      | Undefined \<Rightarrow> None)"

text \<open>
  \<^verbatim>\<open>
  (obj) => {
    const appt = obj.AppointmentDay || obj.Appointment || obj.AppointmentDate;
    if (!obj.Week || String(obj.Week).trim() === '' || String(obj.Week).toLowerCase() === 'unknown') {
      if (appt) {
        const d = new Date(appt);
        if (!isNaN(d.getTime())) {
          const day = d.getDay();
          const diffToMonday = day === 0 ? -6 : 1 - day;
          const monday = new Date(d);
          monday.setDate(d.getDate() + diffToMonday);
          ...
          obj.Week = `${yyyy}-${mm}-${dd}`;
        } else { obj.Week = 'Unknown'; }
      } else { obj.Week = 'Unknown'; }
    }
    if (obj.SMS_received !== undefined) obj.SMS_received = toBin01(obj.SMS_received);
    if (obj.NoShow !== undefined) obj.NoShow = toNum(obj.NoShow);
    if (obj.WaitingDays !== undefined) obj.WaitingDays = toNum(obj.WaitingDays);
    return obj;
  }
  \<close>
\<close>

definition weekMissing :: "jsval \<Rightarrow> bool" where
  "weekMissing w =
     (\<not> truthy w \<or> trim (String_js w) = [] \<or> toLowerCase (String_js w) = ''unknown'')"

definition rowAppt :: "row \<Rightarrow> jsval" where
  \<comment> \<open>\<^verbatim>\<open>const appt = obj.AppointmentDay || obj.Appointment || obj.AppointmentDate\<close>\<close>
  "rowAppt obj =
     js_or (js_or (getProp obj ''AppointmentDay'') (getProp obj ''Appointment''))
       (getProp obj ''AppointmentDate'')"

definition resolveWeek :: "int \<Rightarrow> (string \<Rightarrow> int option) \<Rightarrow> row \<Rightarrow> jsval" where
  \<comment> \<open>the value of \<^verbatim>\<open>obj.Week\<close> after the \<^verbatim>\<open>if\<close> on the week label\<close>
  "resolveWeek tz dparse obj =
     (if weekMissing (getProp obj ''Week'') then
        (if truthy (rowAppt obj) then
           (case newDate dparse (rowAppt obj) of
              Some d \<Rightarrow> Str (weekLabel tz d)
            | None \<Rightarrow> Str ''Unknown'')
         else Str ''Unknown'')
      else getProp obj ''Week'')"

definition normalizeWeek :: "int \<Rightarrow> (string \<Rightarrow> int option) \<Rightarrow> row \<Rightarrow> row" where
  "normalizeWeek tz dparse obj =
     (if weekMissing (getProp obj ''Week'') then set_prop obj ''Week'' (resolveWeek tz dparse obj)
      else obj)"

definition normalizeSMS :: "row \<Rightarrow> row" where
  "normalizeSMS obj =
     (if getProp obj ''SMS_received'' \<noteq> Undefined
      then set_prop obj ''SMS_received'' (Str (toBin01 (getProp obj ''SMS_received'')))
      else obj)"

definition normalizeNum :: "string \<Rightarrow> row \<Rightarrow> row" where
  \<comment> \<open>\<^verbatim>\<open>if (obj.K !== undefined) obj.K = toNum(obj.K)\<close>\<close>
  "normalizeNum k obj =
     (if getProp obj k \<noteq> Undefined then set_prop obj k (num_or_null (toNum (getProp obj k))) else obj)"

definition parseCSV_row :: "int \<Rightarrow> (string \<Rightarrow> int option) \<Rightarrow> row \<Rightarrow> row" where
  "parseCSV_row tz dparse obj =
     normalizeNum ''WaitingDays'' (normalizeNum ''NoShow'' (normalizeSMS (normalizeWeek tz dparse obj)))"

definition parseCSV :: "int \<Rightarrow> (string \<Rightarrow> int option) \<Rightarrow> row list \<Rightarrow> row list" where
  \<comment> \<open>\<^verbatim>\<open>(result.data || []).map(...)\<close> on the rows the CSV reader returned\<close>
  "parseCSV tz dparse data = map (parseCSV_row tz dparse) data"

section \<open>Arithmetic on numbers\<close>

text \<open>
  Comparison, subtraction and absolute value on exact decimals; a comparison with
  \<open>NaN\<close> is false, and \<open>NaN\<close> propagates through arithmetic, as in IEEE 754.
  \<^verbatim>\<open>((a / b) * 100).toFixed(1)\<close> on two counts is \<open>pct_toFixed1 a b\<close>: \<^verbatim>\<open>0 / 0\<close> is
  \<open>NaN\<close>, \<^verbatim>\<open>a / 0\<close> is \<open>Infinity\<close>, and otherwise the quotient is rounded to the nearest
  tenth, a tie going up (\<^verbatim>\<open>toFixed\<close> picks the larger of two equally near values).
\<close>

definition num_less :: "number \<Rightarrow> number \<Rightarrow> bool" where
  "num_less a b =
     (case (a, b) of
        (Finite m1 e1, Finite m2 e2) \<Rightarrow> m1 * 10 ^ e2 < m2 * 10 ^ e1
      | (Finite m1 e1, PosInfinity) \<Rightarrow> True
      | (NegInfinity, Finite m2 e2) \<Rightarrow> True
      | (NegInfinity, PosInfinity) \<Rightarrow> True
      | _ \<Rightarrow> False)"

definition num_le :: "number \<Rightarrow> number \<Rightarrow> bool" where
  "num_le a b = (a \<noteq> NaN \<and> b \<noteq> NaN \<and> \<not> num_less b a)"


definition num_abs :: "number \<Rightarrow> number" where
  "num_abs a =
     (case a of
        Finite m e \<Rightarrow> Finite \<bar>m\<bar> e
      | NegInfinity \<Rightarrow> PosInfinity
      | _ \<Rightarrow> a)"

definition pct_toFixed1 :: "nat \<Rightarrow> nat \<Rightarrow> string" where
  "pct_toFixed1 a b =
     (if b = 0 then (if a = 0 then ''NaN'' else ''Infinity'')
      else
        let tenths = (2000 * a + b) div (2 * b)
        in nat_str (tenths div 10) @ ''.'' @ [digit_char (tenths mod 10)])"

section \<open>Filter engine\<close>

text \<open>
  \<^verbatim>\<open>
  const filteredData = useMemo(() => {
    if (!csvData) return [];
    return csvData.filter((row) => {
      if (filters.ageGroup !== 'All' && row.AgeGroup !== filters.ageGroup) return false;
      if (filters.smsReceived !== 'All' && row.SMS_received !== filters.smsReceived) return false;
      if (filters.week !== 'All' && row.Week !== filters.week) return false;
      return true;
    });
  }, [csvData, filters]);
  \<close>
  \<^verbatim>\<open>csvData\<close> is \<^verbatim>\<open>null\<close> (\<open>None\<close>) until a file is loaded; an empty array is truthy.
\<close>

record filters =
  ageGroup :: string
  smsReceived :: string
  week :: string


definition keepRow :: "filters \<Rightarrow> row \<Rightarrow> bool" where
  \<comment> \<open>the callback of \<^verbatim>\<open>csvData.filter\<close>\<close>
  "keepRow f row =
     (if ageGroup f \<noteq> ''All'' \<and> getProp row ''AgeGroup'' \<noteq> Str (ageGroup f) then False
      else if smsReceived f \<noteq> ''All'' \<and> getProp row ''SMS_received'' \<noteq> Str (smsReceived f) then False
      else if week f \<noteq> ''All'' \<and> getProp row ''Week'' \<noteq> Str (week f) then False
      else True)"

definition filteredData :: "row list option \<Rightarrow> filters \<Rightarrow> row list" where
  "filteredData csvData f =
     (case csvData of
        None \<Rightarrow> []
      | Some rows \<Rightarrow> filter (keepRow f) rows)"

section \<open>Aggregator\<close>

subsection \<open>KPI summaries\<close>

text \<open>
  \<^verbatim>\<open>
  const kpis = useMemo(() => {
    if (!filteredData.length) return { total: 0, noShows: 0, shows: 0, noShowRate: 0 };
    const total = filteredData.length;
    const noShows = filteredData.filter((row) => row.NoShow === 1).length;
    const shows = total - noShows;
    const noShowRate = ((noShows / total) * 100).toFixed(1);
    return { total, noShows, shows, noShowRate };
  }, [filteredData]);

  const overallKpis = useMemo(() => {
    if (!csvData) return { total: 0, noShows: 0, noShowRate: 0 };
    const total = csvData.length;
    const noShows = csvData.filter((row) => row.NoShow === 1).length;
    const noShowRate = ((noShows / total) * 100).toFixed(1);
    return { total, noShows, noShowRate };
  }, [csvData]);
  \<close>
\<close>

definition isNoShow :: "row \<Rightarrow> bool" where
  \<comment> \<open>\<^verbatim>\<open>row.NoShow === 1\<close>\<close>
  "isNoShow row = (getProp row ''NoShow'' = Num (Finite 1 0))"

record kpis_t =
  k_total :: nat
  k_noShows :: nat
  k_shows :: nat
  k_noShowRate :: jsval

definition kpis :: "row list \<Rightarrow> kpis_t" where
  "kpis fd =
     (if length fd = 0 then \<lparr>k_total = 0, k_noShows = 0, k_shows = 0, k_noShowRate = Num (Finite 0 0)\<rparr>
      else
        let t = length fd;
            ns = length (filter isNoShow fd);
            sh = t - ns
        in \<lparr>k_total = t, k_noShows = ns, k_shows = sh, k_noShowRate = Str (pct_toFixed1 ns t)\<rparr>)"

record overall_t =
  o_total :: nat
  o_noShows :: nat
  o_noShowRate :: jsval

definition overallKpis :: "row list option \<Rightarrow> overall_t" where
  "overallKpis csvData =
     (case csvData of
        None \<Rightarrow> \<lparr>o_total = 0, o_noShows = 0, o_noShowRate = Num (Finite 0 0)\<rparr>
      | Some rows \<Rightarrow>
          let t = length rows;
              ns = length (filter isNoShow rows)
          in \<lparr>o_total = t, o_noShows = ns, o_noShowRate = Str (pct_toFixed1 ns t)\<rparr>)"

subsection \<open>Waiting-days statistics\<close>

text \<open>
  \<^verbatim>\<open>
  const waitingDaysStats = useMemo(() => {
    if (!filteredData.length) return { validCount: 0, excludedCount: 0 };
    const validCount = filteredData.filter((row) => {
      const days = getWaitingDays(row);
      return days !== null;
    }).length;
    return { validCount, excludedCount: filteredData.length - validCount };
  }, [filteredData]);
  \<close>
\<close>

record wstats =
  validCount :: nat
  excludedCount :: nat

definition waitingDaysStats :: "(string \<Rightarrow> int option) \<Rightarrow> row list \<Rightarrow> wstats" where
  "waitingDaysStats dparse fd =
     (if length fd = 0 then \<lparr>validCount = 0, excludedCount = 0\<rparr>
      else
        let vc = length (filter (\<lambda>row. getWaitingDays dparse row \<noteq> None) fd)
        in \<lparr>validCount = vc, excludedCount = length fd - vc\<rparr>)"

subsection \<open>Chart data\<close>

text \<open>
  The objects \<^verbatim>\<open>ageGroups\<close>, \<^verbatim>\<open>smsGroups\<close>, \<^verbatim>\<open>weekGroups\<close> and \<^verbatim>\<open>waitingBins\<close> of
  \<^verbatim>\<open>chartData\<close> are dictionaries from a key to a tally, here association lists in the
  order the keys were added, which is the order of \<^verbatim>\<open>Object.values\<close> (a key that is
  an array index would be listed first; a label that names a property inherited from
  \<^verbatim>\<open>Object.prototype\<close> is taken to be an ordinary key). \<^verbatim>\<open>Array.prototype.sort\<close> is
  stable; it is modelled by insertion sort, and a comparator result \<open>NaN\<close> counts as 0.
  \<^verbatim>\<open>
  const ageGroups = {};
  filteredData.forEach((row) => {
    const age = row.AgeGroup || 'Unknown';
    if (!ageGroups[age]) ageGroups[age] = { name: age, NoShow: 0, Show: 0 };
    if (row.NoShow === 1) ageGroups[age].NoShow++;
    else ageGroups[age].Show++;
  });
  const byAge = Object.values(ageGroups).map((group) => {
    const total = group.NoShow + group.Show;
    const rate = total > 0 ? ((group.NoShow / total) * 100).toFixed(1) : '0.0';
    return { ...group, total, rate: parseFloat(rate), noShows: group.NoShow };
  }).sort((a, b) => sortAgeGroups(a.name, b.name));
  \<close>
  \<^verbatim>\<open>bySMS\<close> and \<^verbatim>\<open>byWeek\<close> are built the same way, from the two fixed groups
  \<^verbatim>\<open>Yes\<close> and \<^verbatim>\<open>No\<close> and from \<^verbatim>\<open>row.Week || 'Unknown'\<close>.
\<close>

record group =
  g_name :: string
  g_NoShow :: nat
  g_Show :: nat

record bucket =
  b_name :: string
  b_NoShow :: nat
  b_Show :: nat
  b_total :: nat
  b_rate :: number
  b_noShows :: nat

definition ensureGroup :: "string \<Rightarrow> (string \<times> group) list \<Rightarrow> (string \<times> group) list" where
  \<comment> \<open>\<^verbatim>\<open>if (!groups[k]) groups[k] = { name: k, NoShow: 0, Show: 0 }\<close>\<close>
  "ensureGroup k gs =
     (if map_of gs k = None then gs @ [(k, \<lparr>g_name = k, g_NoShow = 0, g_Show = 0\<rparr>)] else gs)"

fun countInto :: "string \<Rightarrow> bool \<Rightarrow> (string \<times> group) list \<Rightarrow> (string \<times> group) list" where
  \<comment> \<open>\<^verbatim>\<open>if (row.NoShow === 1) groups[k].NoShow++; else groups[k].Show++\<close>\<close>
  "countInto k ns [] = []"
| "countInto k ns ((k', g) # gs) =
     (if k' = k
      then (k', if ns then g\<lparr>g_NoShow := g_NoShow g + 1\<rparr> else g\<lparr>g_Show := g_Show g + 1\<rparr>) # gs
      else (k', g) # countInto k ns gs)"

definition toBucket :: "group \<Rightarrow> bucket" where
  "toBucket g =
     (let t = g_NoShow g + g_Show g;
          rate = (if t > 0 then pct_toFixed1 (g_NoShow g) t else ''0.0'')
      in \<lparr>b_name = g_name g, b_NoShow = g_NoShow g, b_Show = g_Show g, b_total = t,
          b_rate = parseFloat (Str rate), b_noShows = g_NoShow g\<rparr>)"

fun insert_by :: "('a \<Rightarrow> 'a \<Rightarrow> int) \<Rightarrow> 'a \<Rightarrow> 'a list \<Rightarrow> 'a list" where
  "insert_by cmp x [] = [x]"
| "insert_by cmp x (y # ys) = (if cmp y x > 0 then x # y # ys else y # insert_by cmp x ys)"

definition sort_by :: "('a \<Rightarrow> 'a \<Rightarrow> int) \<Rightarrow> 'a list \<Rightarrow> 'a list" where
  "sort_by cmp xs = foldl (\<lambda>acc x. insert_by cmp x acc) [] xs"

definition getNum :: "string \<Rightarrow> int" where
  \<comment> \<open>\<^verbatim>\<open>String(str).match(/^(\d+)/)\<close>, then \<^verbatim>\<open>parseInt(match[1], 10)\<close> or 999\<close>
  "getNum str = (let ds = takeWhile is_digit str in if ds = [] then 999 else int (digits_val ds))"

definition sortAgeGroups :: "string \<Rightarrow> string \<Rightarrow> int" where
  "sortAgeGroups a b =
     (if a = ''Unknown'' then 1 else if b = ''Unknown'' then - 1 else getNum a - getNum b)"

definition sortWeeks :: "(string \<Rightarrow> int option) \<Rightarrow> bucket \<Rightarrow> bucket \<Rightarrow> int" where
  "sortWeeks dparse a b =
     (if b_name a = ''Unknown'' then 1
      else if b_name b = ''Unknown'' then - 1
      else (case (dparse (b_name a), dparse (b_name b)) of
              (Some x, Some y) \<Rightarrow> x - y
            | _ \<Rightarrow> 0))"

definition ageGroups :: "row list \<Rightarrow> (string \<times> group) list" where
  "ageGroups fd =
     foldl (\<lambda>gs row.
        let age = String_js (js_or (getProp row ''AgeGroup'') (Str ''Unknown''))
        in countInto age (isNoShow row) (ensureGroup age gs)) [] fd"

definition smsGroups :: "row list \<Rightarrow> (string \<times> group) list" where
  "smsGroups fd =
     foldl (\<lambda>gs row.
        let sms = (if getProp row ''SMS_received'' = Str ''1'' then ''Yes'' else ''No'')
        in countInto sms (isNoShow row) gs)
       [(''Yes'', \<lparr>g_name = ''SMS Sent'', g_NoShow = 0, g_Show = 0\<rparr>),
        (''No'', \<lparr>g_name = ''No SMS'', g_NoShow = 0, g_Show = 0\<rparr>)] fd"

definition weekGroups :: "row list \<Rightarrow> (string \<times> group) list" where
  "weekGroups fd =
     foldl (\<lambda>gs row.
        let wk = String_js (js_or (getProp row ''Week'') (Str ''Unknown''))
        in countInto wk (isNoShow row) (ensureGroup wk gs)) [] fd"

text \<open>
  \<^verbatim>\<open>
  const waitingBins = {
    '0': { name: '0 days', total: 0, noShows: 0 },
    '1-3': { name: '1-3 days', total: 0, noShows: 0 },
    '4-7': { name: '4-7 days', total: 0, noShows: 0 },
    '8-14': { name: '8-14 days', total: 0, noShows: 0 },
    '15+': { name: '15+ days', total: 0, noShows: 0 }
  };
  filteredData.forEach((row) => {
    const days = getWaitingDays(row);
    if (days === null) return;
    let bin = '15+';
    if (days === 0) bin = '0';
    else if (days <= 3) bin = '1-3';
    else if (days <= 7) bin = '4-7';
    else if (days <= 14) bin = '8-14';
    waitingBins[bin].total++;
    if (row.NoShow === 1) waitingBins[bin].noShows++;
  });
  const byWaitingDays = Object.values(waitingBins).map((bin) => {
    const rate = bin.total > 0 ? (bin.noShows / bin.total) * 100 : 0;
    return { name: bin.name, 'No-Show Rate': parseFloat(rate.toFixed(1)), n: bin.total, noShows: bin.noShows };
  });
  \<close>
\<close>

record wbin =
  w_name :: string
  w_total :: nat
  w_noShows :: nat

record wbucket =
  wd_name :: string
  wd_rate :: number
  wd_n :: nat
  wd_noShows :: nat

definition waitingBins0 :: "(string \<times> wbin) list" where
  "waitingBins0 =
     [(''0'', \<lparr>w_name = ''0 days'', w_total = 0, w_noShows = 0\<rparr>),
      (''1-3'', \<lparr>w_name = ''1-3 days'', w_total = 0, w_noShows = 0\<rparr>),
      (''4-7'', \<lparr>w_name = ''4-7 days'', w_total = 0, w_noShows = 0\<rparr>),
      (''8-14'', \<lparr>w_name = ''8-14 days'', w_total = 0, w_noShows = 0\<rparr>),
      (''15+'', \<lparr>w_name = ''15+ days'', w_total = 0, w_noShows = 0\<rparr>)]"

definition binOf :: "number \<Rightarrow> string" where
  "binOf days =
     (if days = Finite 0 0 then ''0''
      else if num_le days (Finite 3 0) then ''1-3''
      else if num_le days (Finite 7 0) then ''4-7''
      else if num_le days (Finite 14 0) then ''8-14''
      else ''15+'')"

fun binInto :: "string \<Rightarrow> bool \<Rightarrow> (string \<times> wbin) list \<Rightarrow> (string \<times> wbin) list" where
  \<comment> \<open>\<^verbatim>\<open>waitingBins[bin].total++; if (row.NoShow === 1) waitingBins[bin].noShows++\<close>\<close>
  "binInto k ns [] = []"
| "binInto k ns ((k', b) # bs) =
     (if k' = k
      then (k', b\<lparr>w_total := w_total b + 1, w_noShows := w_noShows b + (if ns then 1 else 0)\<rparr>) # bs
      else (k', b) # binInto k ns bs)"

definition waitingBins :: "(string \<Rightarrow> int option) \<Rightarrow> row list \<Rightarrow> (string \<times> wbin) list" where
  "waitingBins dparse fd =
     foldl (\<lambda>bs row.
        case getWaitingDays dparse row of
          None \<Rightarrow> bs
        | Some days \<Rightarrow> binInto (binOf days) (isNoShow row) bs) waitingBins0 fd"

definition toWBucket :: "wbin \<Rightarrow> wbucket" where
  "toWBucket b =
     (let rate = (if w_total b > 0 then pct_toFixed1 (w_noShows b) (w_total b) else ''0.0'')
      in \<lparr>wd_name = w_name b, wd_rate = parseFloat (Str rate), wd_n = w_total b,
          wd_noShows = w_noShows b\<rparr>)"

record chart =
  byAge :: "bucket list"
  bySMS :: "bucket list"
  byWeek :: "bucket list"
  byWaitingDays :: "wbucket list"
  pieData :: "(string \<times> nat) list"

definition chartData :: "(string \<Rightarrow> int option) \<Rightarrow> row list \<Rightarrow> kpis_t \<Rightarrow> chart" where
  "chartData dparse fd kp =
     (if length fd = 0
      then \<lparr>byAge = [], bySMS = [], byWeek = [], byWaitingDays = [], pieData = []\<rparr>
      else
        \<lparr>byAge = sort_by (\<lambda>a b. sortAgeGroups (b_name a) (b_name b))
                   (map (toBucket \<circ> snd) (ageGroups fd)),
         bySMS = map (toBucket \<circ> snd) (smsGroups fd),
         byWeek = sort_by (sortWeeks dparse) (map (toBucket \<circ> snd) (weekGroups fd)),
         byWaitingDays = map (toWBucket \<circ> snd) (waitingBins dparse fd),
         pieData = [(''Showed Up'', k_shows kp), (''No-Show'', k_noShows kp)]\<rparr>)"

section \<open>Insight generator: comparison with the baseline\<close>

text \<open>
  Of \<^verbatim>\<open>currentViewSummary\<close> the model keeps the \<^verbatim>\<open>insight\<close> (the \<^verbatim>\<open>summary\<close> text is
  formatted by the locale). Each constructor stands for one of the source's texts, in
  the order of the source.
  \<^verbatim>\<open>
  if (!csvData) return null;
  const hasFilters = activeFilterCount > 0;
  const filteredRate = parseFloat(kpis.noShowRate);
  const overallRate = parseFloat(overallKpis.noShowRate);
  if (!hasFilters) return { summary: ..., insight: 'Apply filters to identify ...' };
  ...
  const rateDiff = filteredRate - overallRate;
  const absDiff = Math.abs(rateDiff);
  ...
  if (absDiff < 1) insight = 'This segment performs similarly to the overall average.';
  else if (rateDiff > 3) insight = '... elevated no-show risk. Consider targeted interventions ...';
  else if (rateDiff > 0) insight = 'This segment shows slightly elevated no-show risk ...';
  else if (rateDiff < -3) insight = '... performs significantly better than average. ...';
  else insight = 'This segment performs better than average.';
  \<close>
\<close>

datatype insight =
  ApplyFilters | Similar | ElevatedRisk | SlightlyElevated | SignificantlyBetter | BetterThanAverage


definition classify :: "number \<Rightarrow> insight" where
  "classify d =
     (if num_less (num_abs d) (Finite 1 0) then Similar
      else if num_less (Finite 3 0) d then ElevatedRisk
      else if num_less (Finite 0 0) d then SlightlyElevated
      else if num_less d (Finite (- 3) 0) then SignificantlyBetter
      else BetterThanAverage)"


section \<open>A date parser for the examples\<close>

text \<open>
  The statements about dates hold for every parser \<open>dparse\<close>. The examples use the part
  of \<^verbatim>\<open>Date.parse\<close> that ECMA-262 fixes and the dataset needs: \<^verbatim>\<open>YYYY-MM-DD\<close> is
  midnight UTC, \<^verbatim>\<open>YYYY-MM-DDTHH:mm:ss\<close> is local time; any other string is invalid
  here. \<open>days_from_civil\<close> is the day number of a proleptic Gregorian date.
\<close>

definition days_from_civil :: "int \<Rightarrow> int \<Rightarrow> int \<Rightarrow> int" where
  "days_from_civil y0 m d =
     (let y = (if m \<le> 2 then y0 - 1 else y0);
          era = y div 400;
          yoe = y - era * 400;
          mp = (m + 9) mod 12;
          doy = (153 * mp + 2) div 5 + d - 1;
          doe = yoe * 365 + yoe div 4 - yoe div 100 + doy
      in era * 146097 + doe - 719468)"

definition isoFields :: "string \<Rightarrow> nat list option" where
  "isoFields s =
     (let date = take 10 s; time = drop 10 s;
          y = take 4 date; mo = take 2 (drop 5 date); d = drop 8 date;
          h = take 2 (drop 1 time); mi = take 2 (drop 4 time); se = drop 7 time
      in if length date = 10 \<and> date ! 4 = CHR ''-'' \<and> date ! 7 = CHR ''-'' \<and>
            list_all is_digit (y @ mo @ d)
         then (if time = [] then Some [digits_val y, digits_val mo, digits_val d, 0, 0, 0]
               else if length time = 9 \<and> time ! 0 = CHR ''T'' \<and> time ! 3 = CHR '':'' \<and>
                       time ! 6 = CHR '':'' \<and> list_all is_digit (h @ mi @ se)
               then Some [digits_val y, digits_val mo, digits_val d,
                          digits_val h, digits_val mi, digits_val se]
               else None)
         else None)"

definition isoDate :: "int \<Rightarrow> string \<Rightarrow> int option" where
  "isoDate tz s =
     (case isoFields s of
        Some [y, mo, d, h, mi, se] \<Rightarrow>
          if 1 \<le> mo \<and> mo \<le> 12 \<and> 1 \<le> d \<and> d \<le> 31 \<and> h < 24 \<and> mi < 60 \<and> se < 60
          then Some (days_from_civil (int y) (int mo) (int d) * 86400000 +
                     (int h * 3600 + int mi * 60 + int se) * 1000 -
                     (if length s = 10 then 0 else tz))
          else None
      | _ \<Rightarrow> None)"

text \<open>
  Rows of the examples, as \<^verbatim>\<open>parseCSV\<close> leaves them (UTC as the local time zone):
  an explicit \<^verbatim>\<open>WaitingDays\<close> of 5 beside dates ten days apart; the two dates of the
  dataset's first line; an \<^verbatim>\<open>AwaitingTime\<close> column beside a column headed
  \<^verbatim>\<open>Waiting Days\<close>; a negative and a fractional \<^verbatim>\<open>WaitingDays\<close>.
\<close>

abbreviation exExplicit :: row where
  "exExplicit \<equiv> parseCSV_row 0 (isoDate 0)
     [(''ScheduledDay'', Str ''2016-04-19''), (''AppointmentDay'', Str ''2016-04-29''),
      (''WaitingDays'', Str ''5'')]"

abbreviation exDates :: row where
  "exDates \<equiv> parseCSV_row 0 (isoDate 0)
     [(''ScheduledDay'', Str ''2016-04-29 18:38:08''), (''AppointmentDay'', Str ''2016-04-29'')]"

abbreviation exMixed :: row where
  "exMixed \<equiv> parseCSV_row 0 (isoDate 0) [(''AwaitingTime'', Str ''7''), (''Waiting Days'', Str ''5'')]"








section \<open>Filter engine: properties\<close>

lemma keepRow_iff:
  "keepRow f row \<longleftrightarrow>
     (ageGroup f = ''All'' \<or> getProp row ''AgeGroup'' = Str (ageGroup f)) \<and>
     (smsReceived f = ''All'' \<or> getProp row ''SMS_received'' = Str (smsReceived f)) \<and>
     (week f = ''All'' \<or> getProp row ''Week'' = Str (week f))"
  by (auto simp: keepRow_def)

text \<open>
  Claim C3. Filtering is a conjunction of three predicates, one per dimension: a row of
  the loaded collection is kept iff each filter is \<^verbatim>\<open>"All"\<close> or the row's field is the
  string of the filter. The output is the sublist of the kept rows in their order; with
  all three filters \<^verbatim>\<open>"All"\<close> it is the whole collection; an empty collection, or no
  collection, gives the empty output.
\<close>

theorem filteredData_conjunction:
  "filteredData (Some rows) f =
     filter (\<lambda>row. (ageGroup f = ''All'' \<or> getProp row ''AgeGroup'' = Str (ageGroup f)) \<and>
                   (smsReceived f = ''All'' \<or> getProp row ''SMS_received'' = Str (smsReceived f)) \<and>
                   (week f = ''All'' \<or> getProp row ''Week'' = Str (week f))) rows
   \<and> (row \<in> set (filteredData (Some rows) f) \<longleftrightarrow>
        row \<in> set rows \<and>
        (ageGroup f = ''All'' \<or> getProp row ''AgeGroup'' = Str (ageGroup f)) \<and>
        (smsReceived f = ''All'' \<or> getProp row ''SMS_received'' = Str (smsReceived f)) \<and>
        (week f = ''All'' \<or> getProp row ''Week'' = Str (week f)))
   \<and> filteredData (Some rows) \<lparr>ageGroup = ''All'', smsReceived = ''All'', week = ''All''\<rparr> = rows
   \<and> filteredData (Some []) f = []
   \<and> filteredData None f = []"
  by (simp add: filteredData_def keepRow_iff [abs_def])

section \<open>KPI summaries: properties\<close>

lemma kpis_shows_count:
  "k_shows (kpis fd) = length (filter (\<lambda>row. \<not> isNoShow row) fd)"
proof -
  have "length fd = length (filter isNoShow fd) + length (filter (\<lambda>row. \<not> isNoShow row) fd)"
    by (rule sum_length_filter_compl [symmetric])
  then show ?thesis by (simp add: kpis_def Let_def)
qed

text \<open>
  Claim C4. A row whose \<^verbatim>\<open>NoShow\<close> cell is not a number is normalized to \<^verbatim>\<open>null\<close>.
  The KPI summary counts it in \<^verbatim>\<open>total\<close>, not in \<^verbatim>\<open>noShows\<close>, and, since
  \<^verbatim>\<open>shows = total - noShows\<close>, as a show; the tally of its age group counts it under
  \<^verbatim>\<open>Show\<close> as well (by \<open>kpis_shows_count\<close> every row whose outcome is not \<^verbatim>\<open>1\<close> is a
  show). The statement evaluates the engine on the one-row collection made from the raw
  row \<^verbatim>\<open>{NoShow: "abc"}\<close>.
\<close>

theorem kpis_unresolved_counted_as_show:
  "getProp (parseCSV_row 0 (\<lambda>s. None) [(''NoShow'', Str ''abc'')]) ''NoShow'' = Null
   \<and> k_total (kpis [parseCSV_row 0 (\<lambda>s. None) [(''NoShow'', Str ''abc'')]]) = 1
   \<and> k_noShows (kpis [parseCSV_row 0 (\<lambda>s. None) [(''NoShow'', Str ''abc'')]]) = 0
   \<and> k_shows (kpis [parseCSV_row 0 (\<lambda>s. None) [(''NoShow'', Str ''abc'')]]) = 1
   \<and> map b_Show (byAge (chartData (\<lambda>s. None) [parseCSV_row 0 (\<lambda>s. None) [(''NoShow'', Str ''abc'')]]
        (kpis [parseCSV_row 0 (\<lambda>s. None) [(''NoShow'', Str ''abc'')]]))) = [1]"
  by code_simp

text \<open>
  Claim C5. For a loaded dataset with no rows (a file holding only the header line)
  \<^verbatim>\<open>csvData\<close> is the empty array, which is truthy: \<^verbatim>\<open>overallKpis\<close> passes its guard
  and computes \<^verbatim>\<open>((0 / 0) * 100).toFixed(1)\<close>, the string \<^verbatim>\<open>"NaN"\<close>, which
  \<^verbatim>\<open>parseFloat\<close> reads back as \<open>NaN\<close>. \<^verbatim>\<open>kpis\<close> on the same dataset is guarded by the
  length and gives 0 (the guarded rates are treated in the last section).
\<close>

theorem overallKpis_empty_dataset_NaN:
  "overallKpis (Some (parseCSV 0 (\<lambda>s. None) [])) =
     \<lparr>o_total = 0, o_noShows = 0, o_noShowRate = Str ''NaN''\<rparr>
   \<and> parseFloat (o_noShowRate (overallKpis (Some (parseCSV 0 (\<lambda>s. None) [])))) = NaN
   \<and> k_noShowRate (kpis (filteredData (Some (parseCSV 0 (\<lambda>s. None) [])) f)) = Num (Finite 0 0)"
  by (simp add: overallKpis_def parseCSV_def pct_toFixed1_def parseFloat_def String_js_def
      scan_decimal_def scan_sign_def Let_def scan_fraction_def is_digit_def kpis_def
      filteredData_def)

section \<open>Aggregator: properties\<close>















lemma binInto_total:
  "(\<Sum>p\<leftarrow>binInto k ns bs. w_total (snd p)) =
   (\<Sum>p\<leftarrow>bs. w_total (snd p)) + (if k \<in> fst ` set bs then 1 else 0)"
  by (induction bs) force+

lemma binInto_keys: "map fst (binInto k ns bs) = map fst bs"
  by (induction bs) auto

lemma binInto_names: "map (\<lambda>p. w_name (snd p)) (binInto k ns bs) = map (\<lambda>p. w_name (snd p)) bs"
  by (induction bs) auto

lemma binOf_key: "binOf d \<in> fst ` set waitingBins0"
  by (simp add: binOf_def waitingBins0_def)

lemma waitingBins_fold:
  "map fst bs0 = map fst waitingBins0 \<Longrightarrow>
   map fst (foldl (\<lambda>bs row. case getWaitingDays dparse row of None \<Rightarrow> bs
      | Some days \<Rightarrow> binInto (binOf days) (isNoShow row) bs) bs0 fd) = map fst waitingBins0
   \<and> map (w_name \<circ> snd) (foldl (\<lambda>bs row. case getWaitingDays dparse row of None \<Rightarrow> bs
      | Some days \<Rightarrow> binInto (binOf days) (isNoShow row) bs) bs0 fd) = map (w_name \<circ> snd) bs0
   \<and> sum_list (map (w_total \<circ> snd) (foldl (\<lambda>bs row. case getWaitingDays dparse row of None \<Rightarrow> bs
      | Some days \<Rightarrow> binInto (binOf days) (isNoShow row) bs) bs0 fd)) =
     sum_list (map (w_total \<circ> snd) bs0) + length (filter (\<lambda>row. getWaitingDays dparse row \<noteq> None) fd)"
proof (induction fd arbitrary: bs0)
  case Nil
  then show ?case by simp
next
  case (Cons row fd)
  show ?case
  proof (cases "getWaitingDays dparse row")
    case None
    then show ?thesis using Cons.IH [OF Cons.prems] by simp
  next
    case (Some days)
    have k: "map fst (binInto (binOf days) (isNoShow row) bs0) = map fst waitingBins0"
      using Cons.prems by (simp add: binInto_keys)
    have inkeys: "binOf days \<in> fst ` set bs0"
      using binOf_key [of days] Cons.prems by (metis set_map)
    show ?thesis
      using Cons.IH [OF k] Some inkeys by (simp add: binInto_total binInto_names)
  qed
qed

lemma waitingBins_props:
  "map (w_name \<circ> snd) (waitingBins dparse fd) = [''0 days'', ''1-3 days'', ''4-7 days'', ''8-14 days'', ''15+ days'']"
  "sum_list (map (w_total \<circ> snd) (waitingBins dparse fd)) = length (filter (\<lambda>row. getWaitingDays dparse row \<noteq> None) fd)"
  using waitingBins_fold [of waitingBins0 dparse fd]
  by (simp_all add: waitingBins_def) (simp_all add: waitingBins0_def)

lemma toWBucket_fields: "wd_name (toWBucket b) = w_name b" "wd_n (toWBucket b) = w_total b"
  by (simp_all add: toWBucket_def Let_def)


text \<open>
  Claim C8, as stated, fails for the empty collection: \<^verbatim>\<open>chartData\<close> returns early
  with \<^verbatim>\<open>byWaitingDays: []\<close>, so none of the five bins is present.
\<close>

theorem waiting_bins_absent_for_empty_collection:
  "map wd_name (byWaitingDays (chartData (\<lambda>s. None) [] (kpis []))) \<noteq>
     [''0 days'', ''1-3 days'', ''4-7 days'', ''8-14 days'', ''15+ days'']"
  by (simp add: chartData_def)

text \<open>
  Claim C8, amended. For every non-empty filtered collection the waiting-time output is
  the five bins 0, 1-3, 4-7, 8-14 and 15+ days in this order, whatever their totals;
  for the empty collection it is the empty sequence. The bins hold the records whose
  waiting days resolve, \<^verbatim>\<open>validCount\<close> many, and
  \<^verbatim>\<open>excludedCount = total - validCount\<close> is the number of the records left out.
\<close>

theorem waiting_bins_fixed:
  "map wd_name (byWaitingDays (chartData dparse fd kp)) =
     (if fd = [] then [] else [''0 days'', ''1-3 days'', ''4-7 days'', ''8-14 days'', ''15+ days''])
   \<and> sum_list (map wd_n (byWaitingDays (chartData dparse fd kp))) =
       validCount (waitingDaysStats dparse fd)
   \<and> validCount (waitingDaysStats dparse fd) =
       length (filter (\<lambda>row. getWaitingDays dparse row \<noteq> None) fd)
   \<and> excludedCount (waitingDaysStats dparse fd) =
       length fd - validCount (waitingDaysStats dparse fd)
   \<and> excludedCount (waitingDaysStats dparse fd) =
       length (filter (\<lambda>row. getWaitingDays dparse row = None) fd)"
proof -
  have names: "map wd_name (byWaitingDays (chartData dparse fd kp)) =
     (if fd = [] then [] else [''0 days'', ''1-3 days'', ''4-7 days'', ''8-14 days'', ''15+ days''])"
    using waitingBins_props(1) [of dparse fd]
    by (simp add: chartData_def comp_def toWBucket_fields)
  have total: "sum_list (map wd_n (byWaitingDays (chartData dparse fd kp))) =
       length (filter (\<lambda>row. getWaitingDays dparse row \<noteq> None) fd)"
    using waitingBins_props(2) [of dparse fd]
    by (simp add: chartData_def comp_def toWBucket_fields)
  have valid: "validCount (waitingDaysStats dparse fd) =
       length (filter (\<lambda>row. getWaitingDays dparse row \<noteq> None) fd)"
    by (simp add: waitingDaysStats_def Let_def)
  have excl: "excludedCount (waitingDaysStats dparse fd) =
       length fd - validCount (waitingDaysStats dparse fd)"
    by (simp add: waitingDaysStats_def Let_def)
  have "length fd = length (filter (\<lambda>row. getWaitingDays dparse row \<noteq> None) fd) +
       length (filter (\<lambda>row. \<not> getWaitingDays dparse row \<noteq> None) fd)"
    by (rule sum_length_filter_compl [symmetric])
  then have "length fd - length (filter (\<lambda>row. getWaitingDays dparse row \<noteq> None) fd) =
       length (filter (\<lambda>row. getWaitingDays dparse row = None) fd)"
    by simp
  then show ?thesis
    using names total valid excl by simp
qed

section \<open>Baseline comparison: properties\<close>



lemma strip0_val: "strip0 m e = (m', e') \<Longrightarrow> num_val m' e' = num_val m e"
proof (induction m e rule: strip0.induct)
  case (1 m)
  then show ?case by simp
next
  case (2 m e)
  show ?case
  proof (cases "m mod 10 = 0")
    case True
    then have m: "m = 10 * (m div 10)" by presburger
    have "num_val m' e' = num_val (m div 10) e" using 2 True by simp
    also have "\<dots> = num_val m (Suc e)"
      by (subst (2) m) (simp add: num_val_def)
    finally show ?thesis .
  next
    case False
    then show ?thesis using 2 by simp
  qed
qed




lemma classify_other:
  "classify NaN = BetterThanAverage" "classify PosInfinity = ElevatedRisk"
  "classify NegInfinity = SignificantlyBetter"
  by (simp_all add: classify_def num_abs_def num_less_def)







section \<open>Waiting days: properties\<close>

lemma first_num_None_iff: "first_num vs = None \<longleftrightarrow> (\<forall>v \<in> set vs. toNum v = None)"
  by (induction vs) (auto split: option.splits)

lemma first_num_first:
  "i < length vs \<Longrightarrow> (\<forall>j<i. toNum (vs ! j) = None) \<Longrightarrow> toNum (vs ! i) = Some n \<Longrightarrow>
   first_num vs = Some n"
proof (induction vs arbitrary: i)
  case Nil
  then show ?case by simp
next
  case (Cons v vs)
  show ?case
  proof (cases i)
    case 0
    then show ?thesis using Cons.prems by simp
  next
    case (Suc k)
    have v: "toNum v = None" using Cons.prems(2) Suc by auto
    have "first_num vs = Some n"
    proof (rule Cons.IH [of k])
      show "k < length vs" using Cons.prems(1) Suc by simp
      show "\<forall>j<k. toNum (vs ! j) = None" using Cons.prems(2) Suc by auto
      show "toNum (vs ! k) = Some n" using Cons.prems(3) Suc by simp
    qed
    then show ?thesis using v by simp
  qed
qed



lemma dateDiffDays_eq:
  "dateDiffDays dparse row =
     (case (toDate dparse (scheduledRaw row), toDate dparse (apptRaw row)) of
        (Some s, Some a) \<Rightarrow> Some (Finite (max 0 \<lfloor>of_int (a - s) / (86400000 :: rat)\<rfloor>) 0)
      | _ \<Rightarrow> None)"
proof -
  have fl: "\<lfloor>(of_int a - of_int s) / (86400000 :: rat)\<rfloor> = (a - s) div 86400000" for a s :: int
    using floor_divide_of_int_eq [of "a - s" 86400000, where ?'a = rat] by simp
  show ?thesis
    by (auto simp: dateDiffDays_def Let_def fl max_def split: option.splits)
qed

lemma exDates_candidates: "\<forall>v \<in> set (candidates exDates). toNum v = None"
proof -
  have "list_all (\<lambda>v. toNum v = None) (candidates exDates)" by code_simp
  then show ?thesis by (simp only: list_all_iff)
qed

lemma exDates_dates:
  "toDate (isoDate 0) (scheduledRaw exDates) = Some 1461955088000"
  "toDate (isoDate 0) (apptRaw exDates) = Some 1461888000000"
  by code_simp+

text \<open>
  Claim C1, as stated, fails: the waiting-days aliases are not all tried before the
  awaiting-time aliases. The three exact names come first, the three normalized-header
  matches after them, so an exact \<^verbatim>\<open>AwaitingTime\<close> of 7 wins over a column headed
  \<^verbatim>\<open>Waiting Days\<close> (a normalized-header match of the waiting-days alias) that parses
  to 5.
\<close>

theorem explicit_alias_not_first:
  "toNum (pickField exMixed ''waitingdays'') = Some (Finite 5 0)
   \<and> toNum (getProp exMixed ''AwaitingTime'') = Some (Finite 7 0)
   \<and> getWaitingDays (isoDate 0) exMixed = Some (Finite 7 0)"
  by code_simp

text \<open>
  Claim C1, amended. The candidates are tried in the order of the source: the exact
  names \<^verbatim>\<open>WaitingDays\<close>, \<^verbatim>\<open>AwaitingTime\<close>, \<^verbatim>\<open>AwaitingDays\<close>, then the
  normalized-header matches of \<^verbatim>\<open>waitingdays\<close>, \<^verbatim>\<open>awaitingtime\<close>,
  \<^verbatim>\<open>awaitingdays\<close>; the first whose value parses to a number is the result. Only
  when none parses is the result computed from the dates: when both parse it is
  \<open>floor ((appointment - scheduled) / one day)\<close>, at least 0, and otherwise \<^verbatim>\<open>null\<close>; so
  the result is \<^verbatim>\<open>null\<close> exactly when no candidate parses and a date is missing.
\<close>

theorem getWaitingDays_precedence:
  "candidates row =
     [getProp row ''WaitingDays'', getProp row ''AwaitingTime'', getProp row ''AwaitingDays'',
      pickField row ''waitingdays'', pickField row ''awaitingtime'', pickField row ''awaitingdays'']
   \<and> (i < 6 \<and> (\<forall>j<i. toNum (candidates row ! j) = None) \<and> toNum (candidates row ! i) = Some n
        \<longrightarrow> getWaitingDays dparse row = Some n)
   \<and> ((\<forall>v \<in> set (candidates row). toNum v = None) \<longrightarrow>
        getWaitingDays dparse row =
          (case (toDate dparse (scheduledRaw row), toDate dparse (apptRaw row)) of
             (Some s, Some a) \<Rightarrow> Some (Finite (max 0 \<lfloor>of_int (a - s) / (86400000 :: rat)\<rfloor>) 0)
           | _ \<Rightarrow> None))
   \<and> (getWaitingDays dparse row = None \<longleftrightarrow>
        (\<forall>v \<in> set (candidates row). toNum v = None) \<and>
        (toDate dparse (scheduledRaw row) = None \<or> toDate dparse (apptRaw row) = None))"
proof (intro conjI impI)
  show "candidates row =
     [getProp row ''WaitingDays'', getProp row ''AwaitingTime'', getProp row ''AwaitingDays'',
      pickField row ''waitingdays'', pickField row ''awaitingtime'', pickField row ''awaitingdays'']"
    by (simp add: candidates_def)
next
  assume a: "i < 6 \<and> (\<forall>j<i. toNum (candidates row ! j) = None) \<and> toNum (candidates row ! i) = Some n"
  have len: "length (candidates row) = 6" by (simp add: candidates_def)
  have "first_num (candidates row) = Some n"
    by (rule first_num_first) (use a len in auto)
  then show "getWaitingDays dparse row = Some n" by (simp add: getWaitingDays_def)
next
  assume "\<forall>v \<in> set (candidates row). toNum v = None"
  then have "first_num (candidates row) = None" by (simp add: first_num_None_iff)
  then show "getWaitingDays dparse row =
          (case (toDate dparse (scheduledRaw row), toDate dparse (apptRaw row)) of
             (Some s, Some a) \<Rightarrow> Some (Finite (max 0 \<lfloor>of_int (a - s) / (86400000 :: rat)\<rfloor>) 0)
           | _ \<Rightarrow> None)"
    by (simp add: getWaitingDays_def dateDiffDays_eq)
next
  show "getWaitingDays dparse row = None \<longleftrightarrow>
        (\<forall>v \<in> set (candidates row). toNum v = None) \<and>
        (toDate dparse (scheduledRaw row) = None \<or> toDate dparse (apptRaw row) = None)"
    by (auto simp: getWaitingDays_def dateDiffDays_def Let_def first_num_None_iff [symmetric]
        split: option.splits)
qed

text \<open>
  The example of the claim: an explicit \<^verbatim>\<open>WaitingDays\<close> of 5 beside dates that are 10
  days apart resolves to 5; and the dates \<^verbatim>\<open>2016-04-29 18:38:08\<close> and
  \<^verbatim>\<open>2016-04-29\<close> alone resolve to 0.
\<close>

theorem getWaitingDays_precedence_witness:
  "toNum (candidates exExplicit ! 0) = Some (Finite 5 0)
   \<and> dateDiffDays (isoDate 0) exExplicit = Some (Finite 10 0)
   \<and> getWaitingDays (isoDate 0) exExplicit = Some (Finite 5 0)
   \<and> list_all (\<lambda>v. toNum v = None) (candidates exDates)
   \<and> getWaitingDays (isoDate 0) exDates = Some (Finite 0 0)"
proof -
  have a: "toNum (candidates exExplicit ! 0) = Some (Finite 5 0)" by code_simp
  have b: "dateDiffDays (isoDate 0) exExplicit = Some (Finite 10 0)" by code_simp
  have c: "list_all (\<lambda>v. toNum v = None) (candidates exDates)"
    using exDates_candidates by (simp only: list_all_iff)
  have r1: "getWaitingDays (isoDate 0) exExplicit = Some (Finite 5 0)"
    using getWaitingDays_precedence [of exExplicit 0 "Finite 5 0" "isoDate 0"] a by simp
  have r2: "getWaitingDays (isoDate 0) exDates = Some (Finite 0 0)"
    using getWaitingDays_precedence [of exDates 0 NaN "isoDate 0"] exDates_candidates exDates_dates
    by simp
  show ?thesis using a b c r1 r2 by blast
qed




section \<open>Week label: properties\<close>

lemma map_of_set_prop: "map_of (set_prop r k v) = (map_of r)(k \<mapsto> v)"
  by (induction r) (auto simp: fun_eq_iff)

lemma getProp_set_prop: "getProp (set_prop r k v) k' = (if k' = k then v else getProp r k')"
  by (simp add: getProp_def map_of_set_prop)





lemma trim_Nil: "trim [] = []"
  by (simp add: trim_def)








section \<open>Numbers and strings: printing and reading back\<close>

text \<open>
  \<^verbatim>\<open>Number(String(n))\<close> is \<open>n\<close> for every number but \<open>NaN\<close>: the digits printed by
  \<open>String_number\<close> are read back by \<open>Number_str\<close>, and every number \<open>Number_str\<close>
  returns is in lowest terms.
\<close>

lemma of_char_digit_char: "d < 10 \<Longrightarrow> (of_char (digit_char d) :: nat) = 48 + d"
  by (simp add: digit_char_def)

lemma is_digit_digit_char: "d < 10 \<Longrightarrow> is_digit (digit_char d)"
  by (simp add: is_digit_def of_char_digit_char)

lemma digit_val_digit_char: "d < 10 \<Longrightarrow> digit_val (digit_char d) = d"
  by (simp add: digit_val_def of_char_digit_char)

lemma digits_w_digits: "c \<in> set (digits_w w n) \<Longrightarrow> is_digit c"
  by (induction w arbitrary: n) (auto simp: is_digit_digit_char)

lemma length_digits_w: "length (digits_w w n) = w"
  by (induction w arbitrary: n) auto

lemma digits_val_snoc: "digits_val (xs @ [c]) = 10 * digits_val xs + digit_val c"
  by (simp add: digits_val_def)

lemma digits_val_append:
  "digits_val (xs @ ys) = digits_val xs * 10 ^ length ys + digits_val ys"
proof (induction ys rule: rev_induct)
  case Nil
  then show ?case by (simp add: digits_val_def)
next
  case (snoc c ys)
  have "digits_val (xs @ ys @ [c]) = 10 * digits_val (xs @ ys) + digit_val c"
    using digits_val_snoc [of "xs @ ys" c] by simp
  then show ?case by (simp add: snoc.IH digits_val_snoc algebra_simps)
qed

lemma digits_val_digits_w: "digits_val (digits_w w n) = n mod 10 ^ w"
proof (induction w arbitrary: n)
  case 0
  then show ?case by (simp add: digits_val_def)
next
  case (Suc w)
  have "digits_val (digits_w (Suc w) n) = 10 * ((n div 10) mod 10 ^ w) + n mod 10"
    by (simp add: digits_val_snoc Suc.IH digit_val_digit_char)
  also have "\<dots> = n mod 10 ^ Suc w"
    by (simp add: mod_mult2_eq)
  finally show ?case .
qed

lemma num_digits_bound: "n < 10 ^ num_digits n"
proof (induction n rule: num_digits.induct)
  case (1 n)
  show ?case
  proof (cases "n < 10")
    case True
    then have "num_digits n = 1" by (subst num_digits.simps) simp
    then show ?thesis using True by simp
  next
    case False
    then have "n div 10 < 10 ^ num_digits (n div 10)" using 1 by simp
    then have b: "n < 10 * 10 ^ num_digits (n div 10)" by linarith
    have "num_digits n = Suc (num_digits (n div 10))"
      using False by (subst num_digits.simps) simp
    then show ?thesis using b by simp
  qed
qed

lemma num_digits_pos: "0 < num_digits n"
  by (subst num_digits.simps) simp

lemma digits_val_nat_str: "digits_val (nat_str n) = n"
  by (simp add: nat_str_def digits_val_digits_w num_digits_bound)

lemma nat_str_nonempty: "nat_str n \<noteq> []"
  using length_digits_w [of "num_digits n" n] num_digits_pos [of n]
  by (auto simp: nat_str_def simp del: length_digits_w)

lemma nat_str_digits: "c \<in> set (nat_str n) \<Longrightarrow> is_digit c"
  by (simp add: nat_str_def digits_w_digits)

lemma scan_digits:
  assumes "\<forall>c \<in> set ds. is_digit c" and "rest = [] \<or> \<not> is_digit (hd rest)"
  shows "takeWhile is_digit (ds @ rest) = ds" and "dropWhile is_digit (ds @ rest) = rest"
proof -
  have t: "takeWhile is_digit rest = []" using assms(2) by (cases rest) auto
  have d: "dropWhile is_digit rest = rest" using assms(2) by (cases rest) auto
  show "takeWhile is_digit (ds @ rest) = ds"
    using assms(1) t by (simp add: takeWhile_append2)
  show "dropWhile is_digit (ds @ rest) = rest"
    using assms(1) d by (simp add: dropWhile_append2)
qed

lemma digit_not_special:
  "is_digit c \<Longrightarrow> \<not> is_space c \<and> c \<noteq> CHR ''-'' \<and> c \<noteq> CHR ''+'' \<and> c \<noteq> CHR ''.'' \<and>
     c \<noteq> CHR ''I'' \<and> c \<noteq> CHR ''x'' \<and> c \<noteq> CHR ''X'' \<and> c \<noteq> CHR ''o'' \<and> c \<noteq> CHR ''O'' \<and>
     c \<noteq> CHR ''b'' \<and> c \<noteq> CHR ''B''"
  by (auto simp: is_digit_def is_space_def)

lemma trim_id:
  assumes "s \<noteq> []" and "\<not> is_space (hd s)" and "\<not> is_space (last s)"
  shows "trim s = s"
proof -
  have a: "dropWhile is_space s = s" using assms(1,2) by (cases s) auto
  have "rev s \<noteq> []" "\<not> is_space (hd (rev s))" using assms(1,3) by (simp_all add: hd_rev)
  then have b: "dropWhile is_space (rev s) = rev s" by (cases "rev s") auto
  show ?thesis by (simp add: trim_def a b)
qed

lemma scan_decimal_plain:
  assumes ip: "ip \<noteq> []" "\<forall>c \<in> set ip. is_digit c"
    and fp: "\<forall>c \<in> set fp. is_digit c"
    and sg: "scan_sign s = (neg, ip @ (if fp = [] then [] else CHR ''.'' # fp))"
  shows "scan_decimal s = Some (mk_number neg (digits_val (ip @ fp)) (length fp) 0, [])"
proof -
  let ?fr = "if fp = [] then [] else CHR ''.'' # fp"
  have h: "is_digit (hd (ip @ ?fr))" using ip by (cases ip) auto
  have inf: "take 8 (ip @ ?fr) \<noteq> ''Infinity''"
  proof
    assume e: "take 8 (ip @ ?fr) = ''Infinity''"
    have "hd (take 8 (ip @ ?fr)) = hd (ip @ ?fr)" using ip by (cases ip) auto
    then have "hd (ip @ ?fr) = CHR ''I''" using e by simp
    then show False using h digit_not_special by metis
  qed
  have r: "?fr = [] \<or> \<not> is_digit (hd ?fr)"
    using digit_not_special [of "CHR ''.''"] by auto
  have tw: "takeWhile is_digit (ip @ ?fr) = ip" and dw: "dropWhile is_digit (ip @ ?fr) = ?fr"
    using scan_digits [OF ip(2) r] by simp_all
  have fpt: "takeWhile is_digit fp = fp" "dropWhile is_digit fp = []"
    using fp by (simp_all add: takeWhile_eq_all_conv)
  have fr: "scan_fraction ?fr = (fp, [])"
    by (simp add: scan_fraction_def fpt)
  have ex: "scan_exponent [] = None" by (simp add: scan_exponent_def)
  show ?thesis
    unfolding scan_decimal_def sg
    using inf ip(1) by (simp add: tw dw fr ex Let_def del: take_append)
qed

lemma strip0_idem: "strip0 m e = (m', e') \<Longrightarrow> strip0 m' e' = (m', e')"
  by (induction m e rule: strip0.induct) (auto split: if_splits)

lemma normalized_simps:
  "normalized NaN" "normalized PosInfinity" "normalized NegInfinity" "normalized (Finite m 0)"
  by (simp_all add: normalized_def)

lemma normalized_mk_number: "normalized (mk_number neg mant scale ex)"
  by (auto simp: mk_number_def normalized_def Let_def strip0_idem split: prod.splits)

lemma normalized_scan_decimal: "scan_decimal s = Some (n, r) \<Longrightarrow> normalized n"
  by (auto simp: scan_decimal_def Let_def normalized_mk_number normalized_simps
      split: prod.splits if_splits option.splits)

lemma normalized_Number_str: "normalized (Number_str s)"
  by (auto simp: Number_str_def Let_def normalized_simps dest: normalized_scan_decimal
      split: option.splits prod.splits)

lemma normalized_toNum: "toNum v = Some n \<Longrightarrow> normalized n \<and> n \<noteq> NaN"
  by (auto simp: toNum_def Let_def normalized_Number_str split: if_splits)

lemma radix_literal_plain:
  assumes "ip \<noteq> []" "\<forall>c \<in> set ip. is_digit c"
  shows "radix_literal (ip @ (if fp = [] then [] else CHR ''.'' # fp)) = None"
proof (cases ip)
  case Nil
  then show ?thesis using assms by simp
next
  case (Cons c0 t)
  show ?thesis
  proof (cases t)
    case Nil
    then show ?thesis
      using Cons by (auto simp: radix_literal_def split: list.splits)
  next
    case (Cons c1 u)
    have "is_digit c1" using assms(2) \<open>ip = c0 # t\<close> Cons by simp
    then show ?thesis
      using \<open>ip = c0 # t\<close> Cons digit_not_special [of c1] by (simp add: radix_literal_def)
  qed
qed

lemma radix_literal_minus: "radix_literal (CHR ''-'' # s) = None"
  by (simp add: radix_literal_def split: list.splits)

lemma Number_str_String_Finite:
  assumes n: "strip0 m e = (m, e)"
  shows "trim (String_number (Finite m e)) = String_number (Finite m e)"
    and "String_number (Finite m e) \<noteq> []"
    and "Number_str (String_number (Finite m e)) = Finite m e"
proof -
  let ?a = "nat \<bar>m\<bar>"
  let ?ip = "nat_str (?a div 10 ^ e)"
  let ?fp = "digits_w e (?a mod 10 ^ e)"
  let ?fr = "if ?fp = [] then [] else CHR ''.'' # ?fp"
  let ?body = "?ip @ ?fr"
  let ?s = "String_number (Finite m e)"
  have fp_e: "?fp = [] \<longleftrightarrow> e = 0"
    using length_digits_w [of e "?a mod 10 ^ e"] by (metis length_0_conv)
  have s: "?s = (if m < 0 then [CHR ''-''] else []) @ ?body"
    using fp_e by (simp add: String_number_def)
  have ip: "?ip \<noteq> []" "\<forall>c \<in> set ?ip. is_digit c"
    by (simp_all add: nat_str_nonempty nat_str_digits)
  have fp: "\<forall>c \<in> set ?fp. is_digit c" by (simp add: digits_w_digits)
  have body_ne: "?body \<noteq> []" using ip(1) by simp
  have hd_body: "is_digit (hd ?body)" using ip by (cases ?ip) auto
  have last_body: "is_digit (last ?body)"
  proof (cases "?fp = []")
    case True
    then show ?thesis using ip by (simp add: last_in_set)
  next
    case False
    then have "last ?body = last ?fp" by simp
    then show ?thesis using fp False by (metis last_in_set)
  qed
  show ne: "?s \<noteq> []" using s body_ne by simp
  have hd_s: "\<not> is_space (hd ?s)"
  proof (cases "m < 0")
    case True
    then have "hd ?s = CHR ''-''" using s by simp
    then show ?thesis by (simp add: is_space_def)
  next
    case False
    then have "hd ?s = hd ?body" using s by simp
    then show ?thesis using hd_body digit_not_special by metis
  qed
  have last_s: "\<not> is_space (last ?s)"
  proof -
    have "last ?s = last ?body" using s body_ne by simp
    then show ?thesis using last_body digit_not_special by metis
  qed
  show tr: "trim ?s = ?s" by (rule trim_id [OF ne hd_s last_s])
  have sg: "scan_sign ?s = (m < 0, ?body)"
  proof (cases "m < 0")
    case True
    then show ?thesis using s by (simp add: scan_sign_def)
  next
    case False
    obtain c t where ct: "?body = c # t" using body_ne by (cases ?body) auto
    then have "is_digit c" using hd_body by simp
    then have "c \<noteq> CHR ''-''" "c \<noteq> CHR ''+''" using digit_not_special by blast+
    then show ?thesis using False s ct by (simp add: scan_sign_def)
  qed
  have sd: "scan_decimal ?s = Some (mk_number (m < 0) (digits_val (?ip @ ?fp)) (length ?fp) 0, [])"
    by (rule scan_decimal_plain [OF ip fp sg])
  have "digits_val (?ip @ ?fp) = ?a div 10 ^ e * 10 ^ e + ?a mod 10 ^ e"
    by (simp add: digits_val_append digits_val_nat_str digits_val_digits_w length_digits_w)
  also have "\<dots> = ?a" by (rule div_mult_mod_eq)
  finally have dv: "digits_val (?ip @ ?fp) = ?a" .
  have mk: "mk_number (m < 0) ?a e 0 = Finite m e"
  proof (cases "e = 0")
    case True
    then show ?thesis by (simp add: mk_number_def)
  next
    case False
    have "(if m < 0 then - int ?a else int ?a) = m" by simp
    then show ?thesis using False n by (simp add: mk_number_def Let_def)
  qed
  have rl: "radix_literal ?s = None"
  proof (cases "m < 0")
    case True
    then show ?thesis using s by (simp add: radix_literal_minus)
  next
    case False
    then show ?thesis using s radix_literal_plain [OF ip, of ?fp] by simp
  qed
  show "Number_str ?s = Finite m e"
    using ne by (simp add: Number_str_def tr rl sd dv length_digits_w mk)
qed

lemma toNum_Num_normalized:
  assumes "normalized n" and "n \<noteq> NaN"
  shows "toNum (Num n) = Some n"
proof (cases n)
  case NaN
  then show ?thesis using assms by simp
next
  case PosInfinity
  have "toNum (Num PosInfinity) = Some PosInfinity" by code_simp
  then show ?thesis using PosInfinity by simp
next
  case NegInfinity
  have "toNum (Num NegInfinity) = Some NegInfinity" by code_simp
  then show ?thesis using NegInfinity by simp
next
  case (Finite m e)
  then have n: "strip0 m e = (m, e)" using assms(1) by (simp add: normalized_def)
  show ?thesis
    using Number_str_String_Finite [OF n] Finite
    by (simp add: toNum_def String_js_def)
qed

section \<open>Normalization: idempotence\<close>

lemma dropWhile_hd: "xs = [] \<or> \<not> P (hd xs) \<Longrightarrow> dropWhile P xs = xs"
  by (cases xs) auto

lemma trim_idem: "trim (trim s) = trim s"
proof -
  let ?a = "dropWhile is_space s"
  let ?b = "rev (dropWhile is_space (rev ?a))"
  have a_hd: "?a = [] \<or> \<not> is_space (hd ?a)"
    by (metis hd_dropWhile)
  have split: "?a = ?b @ rev (takeWhile is_space (rev ?a))"
    by (metis rev_append rev_rev_ident takeWhile_dropWhile_id)
  have b_hd: "?b = [] \<or> \<not> is_space (hd ?b)"
  proof (cases "?b = []")
    case True
    then show ?thesis by simp
  next
    case False
    then have "hd ?a = hd ?b" using split by (metis hd_append2)
    moreover have "?a \<noteq> []" using False split by (metis append_is_Nil_conv)
    ultimately show ?thesis using a_hd by metis
  qed
  have d1: "dropWhile is_space ?b = ?b"
    by (rule dropWhile_hd [of ?b is_space, OF b_hd])
  have "trim ?b = ?b"
    unfolding trim_def by (simp only: d1 rev_rev_ident dropWhile_idem)
  then show ?thesis by (simp add: trim_def)
qed

lemma toNum_Str_trim: "toNum (Str (trim s)) = toNum (Str s)"
  by (simp add: toNum_def String_js_def trim_idem)

lemma toBin01_one: "toBin01 (Str ''1'') = ''1''" by code_simp
lemma toBin01_zero: "toBin01 (Str ''0'') = ''0''" by code_simp
lemma toBin01_empty: "toBin01 (Str []) = []" by code_simp

lemma toBin01_idem: "toBin01 (Str (toBin01 v)) = toBin01 v"
proof (cases "toNum v = Some (Finite 1 0) \<or> toNum v = Some (Finite 0 0)")
  case True
  then show ?thesis by (auto simp: toBin01_def [of v] toBin01_one toBin01_zero)
next
  case False
  show ?thesis
  proof (cases "v = Null \<or> v = Undefined")
    case True
    then have "toBin01 v = []" by (auto simp: toBin01_def toNum_def trim_Nil String_js_def)
    then show ?thesis by (simp add: toBin01_empty)
  next
    case nn: False
    let ?t = "trim (String_js v)"
    have t: "toBin01 v = ?t" using False nn by (simp add: toBin01_def Let_def)
    have "toNum (Str ?t) = toNum (Str (String_js v))" by (rule toNum_Str_trim)
    also have "\<dots> = toNum v" using nn by (simp add: toNum_def String_js_def)
    finally have n: "toNum (Str ?t) = toNum v" .
    have "toBin01 (Str ?t) = trim ?t"
      using False n by (simp add: toBin01_def Let_def String_js_def)
    then show ?thesis using t by (simp add: trim_idem)
  qed
qed

lemma toNum_stable: "toNum (num_or_null (toNum v)) = toNum v"
proof (cases "toNum v")
  case None
  then show ?thesis by (simp add: num_or_null_def toNum_def)
next
  case (Some n)
  then have "normalized n \<and> n \<noteq> NaN" by (rule normalized_toNum)
  then have "toNum (Num n) = Some n" by (simp add: toNum_Num_normalized)
  then show ?thesis using Some by (simp add: num_or_null_def)
qed

lemma set_prop_same: "map_of r k = Some v \<Longrightarrow> set_prop r k v = r"
  by (induction r) (auto split: if_splits)

lemma getProp_map_of: "getProp r k \<noteq> Undefined \<Longrightarrow> map_of r k = Some (getProp r k)"
  by (auto simp: getProp_def split: option.splits)

lemma set_prop_getProp: "getProp r k \<noteq> Undefined \<Longrightarrow> set_prop r k (getProp r k) = r"
  by (simp add: set_prop_same getProp_map_of)

lemma getProp_parseCSV_row:
  "getProp (parseCSV_row tz dparse obj) k =
     (if k = ''WaitingDays'' then
        (if getProp obj k \<noteq> Undefined then num_or_null (toNum (getProp obj k)) else Undefined)
      else if k = ''NoShow'' then
        (if getProp obj k \<noteq> Undefined then num_or_null (toNum (getProp obj k)) else Undefined)
      else if k = ''SMS_received'' then
        (if getProp obj k \<noteq> Undefined then Str (toBin01 (getProp obj k)) else Undefined)
      else if k = ''Week'' then resolveWeek tz dparse obj
      else getProp obj k)"
  by (simp add: parseCSV_row_def normalizeNum_def normalizeSMS_def normalizeWeek_def
      getProp_set_prop resolveWeek_def)

lemma rowAppt_parseCSV_row: "rowAppt (parseCSV_row tz dparse obj) = rowAppt obj"
  by (simp add: rowAppt_def getProp_parseCSV_row)

lemma resolveWeek_truthy: "weekMissing (resolveWeek tz dparse obj) \<Longrightarrow> weekMissing (getProp obj ''Week'')"
  by (cases "weekMissing (getProp obj ''Week'')") (simp_all add: resolveWeek_def)

lemma resolveWeek_stable:
  "resolveWeek tz dparse (parseCSV_row tz dparse obj) = resolveWeek tz dparse obj"
proof (cases "weekMissing (resolveWeek tz dparse obj)")
  case True
  then have "weekMissing (getProp obj ''Week'')" by (rule resolveWeek_truthy)
  then show ?thesis
    using True
    by (simp add: resolveWeek_def [of tz dparse "parseCSV_row tz dparse obj"]
        getProp_parseCSV_row rowAppt_parseCSV_row)
       (simp add: resolveWeek_def)
next
  case False
  then show ?thesis
    by (simp add: resolveWeek_def [of tz dparse "parseCSV_row tz dparse obj"] getProp_parseCSV_row)
qed

lemma num_or_null_defined: "num_or_null r \<noteq> Undefined"
  by (simp add: num_or_null_def split: option.splits)

lemma normalizeNum_fixed:
  assumes "getProp r k = Undefined \<or> (\<exists>v. getProp r k = num_or_null (toNum v))"
  shows "normalizeNum k r = r"
proof (cases "getProp r k = Undefined")
  case True
  then show ?thesis by (simp add: normalizeNum_def)
next
  case False
  then obtain v where v: "getProp r k = num_or_null (toNum v)" using assms by blast
  have "num_or_null (toNum (getProp r k)) = getProp r k"
    by (simp add: v toNum_stable)
  then show ?thesis using False by (simp add: normalizeNum_def set_prop_getProp)
qed

lemma normalizeSMS_fixed:
  assumes "getProp r ''SMS_received'' = Undefined \<or> (\<exists>v. getProp r ''SMS_received'' = Str (toBin01 v))"
  shows "normalizeSMS r = r"
proof (cases "getProp r ''SMS_received'' = Undefined")
  case True
  then show ?thesis by (simp add: normalizeSMS_def)
next
  case False
  then obtain v where v: "getProp r ''SMS_received'' = Str (toBin01 v)" using assms by blast
  have "Str (toBin01 (getProp r ''SMS_received'')) = getProp r ''SMS_received''"
    by (simp add: v toBin01_idem)
  then show ?thesis using False by (simp add: normalizeSMS_def set_prop_getProp)
qed

lemma weekMissing_defined: "weekMissing (resolveWeek tz dparse obj) \<Longrightarrow> resolveWeek tz dparse obj \<noteq> Undefined"
  by (auto simp: resolveWeek_def split: option.splits if_splits)

lemma normalizeWeek_fixed:
  "normalizeWeek tz dparse (parseCSV_row tz dparse obj) = parseCSV_row tz dparse obj"
proof (cases "weekMissing (getProp (parseCSV_row tz dparse obj) ''Week'')")
  case False
  then show ?thesis by (simp add: normalizeWeek_def)
next
  case True
  let ?r = "parseCSV_row tz dparse obj"
  have w: "getProp ?r ''Week'' = resolveWeek tz dparse obj" by (simp add: getProp_parseCSV_row)
  then have d: "getProp ?r ''Week'' \<noteq> Undefined" using True weekMissing_defined by metis
  have "resolveWeek tz dparse ?r = getProp ?r ''Week''" by (simp add: resolveWeek_stable w)
  then show ?thesis using True d by (simp add: normalizeWeek_def set_prop_getProp)
qed

text \<open>
  Claim C10. The row callback of \<^verbatim>\<open>parseCSV\<close> is idempotent: applied to a row it
  has already normalized it returns the same row. In particular \<^verbatim>\<open>toBin01\<close> applied
  to its own result gives that result, for every value; \<^verbatim>\<open>toNum\<close> applied to its own
  result (a number or \<^verbatim>\<open>null\<close>) gives that result; and deriving the week again
  from a normalized row gives the week the row already has.
\<close>

theorem normalization_idempotent:
  "parseCSV_row tz dparse (parseCSV_row tz dparse obj) = parseCSV_row tz dparse obj
   \<and> toBin01 (Str (toBin01 v)) = toBin01 v
   \<and> toNum (num_or_null (toNum v)) = toNum v
   \<and> resolveWeek tz dparse (parseCSV_row tz dparse obj) =
       getProp (parseCSV_row tz dparse obj) ''Week''"
proof -
  let ?r = "parseCSV_row tz dparse obj"
  have w: "normalizeWeek tz dparse ?r = ?r" by (rule normalizeWeek_fixed)
  have s: "normalizeSMS ?r = ?r"
    by (rule normalizeSMS_fixed) (auto simp: getProp_parseCSV_row)
  have n: "normalizeNum ''NoShow'' ?r = ?r"
    by (rule normalizeNum_fixed) (auto simp: getProp_parseCSV_row)
  have d: "normalizeNum ''WaitingDays'' ?r = ?r"
    by (rule normalizeNum_fixed) (auto simp: getProp_parseCSV_row)
  have "parseCSV_row tz dparse ?r =
      normalizeNum ''WaitingDays'' (normalizeNum ''NoShow'' (normalizeSMS (normalizeWeek tz dparse ?r)))"
    by (simp add: parseCSV_row_def)
  also have "\<dots> = ?r" by (simp only: w s n d)
  finally have rec: "parseCSV_row tz dparse ?r = ?r" .
  have wk: "resolveWeek tz dparse ?r = getProp ?r ''Week''"
    by (simp add: resolveWeek_stable getProp_parseCSV_row)
  show ?thesis using rec toBin01_idem [of v] toNum_stable [of v] wk by blast
qed

section \<open>Rates: the guarded computations\<close>

text \<open>
  Where the division is guarded, the rate is a number between 0 and 100: 0 for a total
  of 0, and otherwise \<open>noShow / total * 100\<close> rounded to one decimal place (half up).
  This holds for \<^verbatim>\<open>kpis\<close> and for every bucket of \<^verbatim>\<open>chartData\<close>; \<^verbatim>\<open>overallKpis\<close>
  is the exception shown with claim C5.
\<close>

lemma parseFloat_tenths:
  assumes "d < 10"
  shows "\<exists>m e. parseFloat (Str (nat_str i @ ''.'' @ [digit_char d])) = Finite m e \<and>
         num_val m e = of_nat (10 * i + d) / 10"
proof -
  let ?ip = "nat_str i"
  let ?fp = "[digit_char d]"
  let ?s = "?ip @ ''.'' @ ?fp"
  have ip: "?ip \<noteq> []" "\<forall>c \<in> set ?ip. is_digit c"
    by (simp_all add: nat_str_nonempty nat_str_digits)
  have fp: "\<forall>c \<in> set ?fp. is_digit c" using assms by (simp add: is_digit_digit_char)
  obtain c t where ct: "?ip = c # t" using ip(1) by (cases ?ip) auto
  then have c: "is_digit c" using ip(2) by simp
  have sp: "dropWhile is_space ?s = ?s"
    using ct c digit_not_special [of c] by simp
  have sg: "scan_sign ?s = (False, ?ip @ (if ?fp = [] then [] else CHR ''.'' # ?fp))"
    using ct c digit_not_special [of c] by (simp add: scan_sign_def)
  have sd: "scan_decimal ?s = Some (mk_number False (digits_val (?ip @ ?fp)) (length ?fp) 0, [])"
    by (rule scan_decimal_plain [OF ip fp sg])
  have dv: "digits_val (?ip @ ?fp) = 10 * i + d"
    using assms by (simp add: digits_val_snoc digits_val_nat_str digit_val_digit_char)
  obtain m e where st: "strip0 (int (10 * i + d)) 1 = (m, e)"
    by (cases "strip0 (int (10 * i + d)) 1")
  have mk: "mk_number False (10 * i + d) 1 0 = Finite m e"
    using st by (simp add: mk_number_def)
  have v: "num_val m e = of_nat (10 * i + d) / 10"
    using strip0_val [OF st] by (simp add: num_val_def)
  have "parseFloat (Str ?s) = Finite m e"
    using sp sd dv mk by (simp add: parseFloat_def String_js_def)
  then show ?thesis using v by blast
qed

lemma tenths_floor:
  fixes a b :: nat
  assumes "0 < b"
  shows "int ((2000 * a + b) div (2 * b)) = \<lfloor>(of_nat a / of_nat b * 100) * 10 + (1 / 2 :: rat)\<rfloor>"
proof -
  have "(of_nat a / of_nat b * 100) * 10 + (1 / 2 :: rat) = of_nat (2000 * a + b) / of_nat (2 * b)"
    using assms by (simp add: field_simps)
  then show ?thesis by (simp only: floor_divide_of_nat_eq)
qed

lemma tenths_le:
  fixes a b :: nat
  assumes "0 < b" "a \<le> b"
  shows "(2000 * a + b) div (2 * b) \<le> 1000"
proof -
  have "2000 * a + b < 1001 * (2 * b)" using assms by simp
  then have "(2000 * a + b) div (2 * b) < 1001" by (rule less_mult_imp_div_less)
  then show ?thesis by simp
qed

lemma guarded_rate:
  fixes a b :: nat
  assumes "0 < b" "a \<le> b"
  shows "\<exists>m e. parseFloat (Str (pct_toFixed1 a b)) = Finite m e \<and>
         num_val m e = of_int \<lfloor>(of_nat a / of_nat b * 100) * 10 + (1 / 2 :: rat)\<rfloor> / 10 \<and>
         0 \<le> num_val m e \<and> num_val m e \<le> 100"
proof -
  let ?t = "(2000 * a + b) div (2 * b)"
  have d: "?t mod 10 < 10" by simp
  obtain m e where p: "parseFloat (Str (nat_str (?t div 10) @ ''.'' @ [digit_char (?t mod 10)])) = Finite m e"
    and v: "num_val m e = of_nat (10 * (?t div 10) + ?t mod 10) / 10"
    using parseFloat_tenths [OF d, of "?t div 10"] by blast
  have v': "num_val m e = of_nat ?t / 10" using v by simp
  have f: "(of_nat ?t :: rat) = of_int \<lfloor>(of_nat a / of_nat b * 100) * 10 + (1 / 2 :: rat)\<rfloor>"
    using tenths_floor [OF assms(1), of a] by (metis of_int_of_nat_eq)
  have le: "(of_nat ?t :: rat) \<le> 1000"
    using tenths_le [OF assms] by (metis of_nat_le_iff of_nat_numeral)
  have "parseFloat (Str (pct_toFixed1 a b)) = Finite m e"
    using p assms(1) by (simp add: pct_toFixed1_def Let_def)
  moreover have "num_val m e = of_int \<lfloor>(of_nat a / of_nat b * 100) * 10 + (1 / 2 :: rat)\<rfloor> / 10"
    using v' f by simp
  moreover have "0 \<le> num_val m e" using v' by simp
  moreover have "num_val m e \<le> 100" using v' le by simp
  ultimately show ?thesis by blast
qed

lemma rate_zero: "parseFloat (Str ''0.0'') = Finite 0 0" "parseFloat (Num (Finite 0 0)) = Finite 0 0"
  by code_simp+

lemma bucket_rate_range:
  "\<exists>m e. b_rate (toBucket g) = Finite m e \<and> 0 \<le> num_val m e \<and> num_val m e \<le> 100 \<and>
     (if b_total (toBucket g) = 0 then num_val m e = 0
      else num_val m e =
        of_int \<lfloor>(of_nat (g_NoShow g) / of_nat (b_total (toBucket g)) * 100) * 10 + (1 / 2 :: rat)\<rfloor> / 10)"
proof (cases "g_NoShow g + g_Show g = 0")
  case True
  then show ?thesis by (simp add: toBucket_def rate_zero num_val_def)
next
  case False
  then have "0 < g_NoShow g + g_Show g" "g_NoShow g \<le> g_NoShow g + g_Show g" by simp_all
  from guarded_rate [OF this] obtain m e where
    "parseFloat (Str (pct_toFixed1 (g_NoShow g) (g_NoShow g + g_Show g))) = Finite m e"
    "num_val m e = of_int \<lfloor>(of_nat (g_NoShow g) / of_nat (g_NoShow g + g_Show g) * 100) * 10 + (1 / 2 :: rat)\<rfloor> / 10"
    "0 \<le> num_val m e" "num_val m e \<le> 100" by blast
  then show ?thesis
    using False by (intro exI [of _ m] exI [of _ e]) (auto simp: toBucket_def Let_def)
qed

lemma waiting_rate_range:
  "w_noShows b \<le> w_total b \<Longrightarrow>
   \<exists>m e. wd_rate (toWBucket b) = Finite m e \<and> 0 \<le> num_val m e \<and> num_val m e \<le> 100 \<and>
     (if w_total b = 0 then num_val m e = 0
      else num_val m e =
        of_int \<lfloor>(of_nat (w_noShows b) / of_nat (w_total b) * 100) * 10 + (1 / 2 :: rat)\<rfloor> / 10)"
proof (cases "w_total b = 0")
  case True
  then show ?thesis by (simp add: toWBucket_def rate_zero num_val_def)
next
  case False
  assume "w_noShows b \<le> w_total b"
  with False have "0 < w_total b" "w_noShows b \<le> w_total b" by simp_all
  from guarded_rate [OF this] obtain m e where
    "parseFloat (Str (pct_toFixed1 (w_noShows b) (w_total b))) = Finite m e"
    "num_val m e = of_int \<lfloor>(of_nat (w_noShows b) / of_nat (w_total b) * 100) * 10 + (1 / 2 :: rat)\<rfloor> / 10"
    "0 \<le> num_val m e" "num_val m e \<le> 100" by blast
  then show ?thesis
    using False by (intro exI [of _ m] exI [of _ e]) (simp add: toWBucket_def Let_def)
qed

lemma kpis_rate_range:
  "\<exists>m e. parseFloat (k_noShowRate (kpis fd)) = Finite m e \<and> 0 \<le> num_val m e \<and> num_val m e \<le> 100 \<and>
     (if k_total (kpis fd) = 0 then num_val m e = 0
      else num_val m e =
        of_int \<lfloor>(of_nat (k_noShows (kpis fd)) / of_nat (k_total (kpis fd)) * 100) * 10 + (1 / 2 :: rat)\<rfloor> / 10)"
proof (cases "fd = []")
  case True
  then show ?thesis by (simp add: kpis_def rate_zero num_val_def)
next
  case False
  then have "0 < length fd" "length (filter isNoShow fd) \<le> length fd" by simp_all
  from guarded_rate [OF this] obtain m e where
    "parseFloat (Str (pct_toFixed1 (length (filter isNoShow fd)) (length fd))) = Finite m e"
    "num_val m e = of_int \<lfloor>(of_nat (length (filter isNoShow fd)) / of_nat (length fd) * 100) * 10 + (1 / 2 :: rat)\<rfloor> / 10"
    "0 \<le> num_val m e" "num_val m e \<le> 100" by blast
  then show ?thesis
    using False by (intro exI [of _ m] exI [of _ e]) (simp add: kpis_def Let_def)
qed

lemma binInto_le:
  "\<forall>p \<in> set bs. w_noShows (snd p) \<le> w_total (snd p) \<Longrightarrow>
   \<forall>p \<in> set (binInto k ns bs). w_noShows (snd p) \<le> w_total (snd p)"
  by (induction bs) (fastforce split: if_splits)+

lemma waitingBins_fold_le:
  "\<forall>p \<in> set bs0. w_noShows (snd p) \<le> w_total (snd p) \<Longrightarrow>
   \<forall>p \<in> set (foldl (\<lambda>bs row. case getWaitingDays dparse row of None \<Rightarrow> bs
       | Some days \<Rightarrow> binInto (binOf days) (isNoShow row) bs) bs0 fd).
     w_noShows (snd p) \<le> w_total (snd p)"
proof (induction fd arbitrary: bs0)
  case Nil
  then show ?case by simp
next
  case (Cons row fd)
  show ?case
  proof (cases "getWaitingDays dparse row")
    case None
    then show ?thesis using Cons.IH [OF Cons.prems] by simp
  next
    case (Some days)
    then show ?thesis
      using Cons.IH [OF binInto_le [OF Cons.prems, of "binOf days" "isNoShow row"]] by simp
  qed
qed

lemma waitingBins_le:
  "\<forall>p \<in> set (waitingBins dparse fd). w_noShows (snd p) \<le> w_total (snd p)"
proof -
  have "\<forall>p \<in> set waitingBins0. w_noShows (snd p) \<le> w_total (snd p)"
    by (simp add: waitingBins0_def)
  then show ?thesis
    unfolding waitingBins_def by (rule waitingBins_fold_le)
qed

end
